theory Spec2Isabelle
  imports Complex_Main "HOL-Library.Word" "HOL-Library.Monad_Syntax"
begin

section \<open>The 7Semi AD849x thermocouple amplifier driver\<close>

text \<open>
  The driver (\<^verbatim>\<open>src/7Semi_AD849x.h\<close>, \<^verbatim>\<open>src/7Semi_AD849x.cpp\<close>) is one C++ class. Its
  private members become a record, each member function a HOL function that takes the
  object (and the board, when it samples the ADC) and returns the result together with
  whatever it changed. Member functions that only compute (\<open>rawToVoltage\<close>,
  \<open>voltageToCelsius\<close>, \<open>getSampling\<close>) return a plain value: they have no state to
  hand back.
\<close>

subsection \<open>Values of type \<^verbatim>\<open>float\<close>\<close>

text \<open>
  A C \<^verbatim>\<open>float\<close> is a finite number, one of the two infinities, or not-a-number. The
  driver relies on the difference: \<^verbatim>\<open>filtered_temperature\<close> starts as \<^verbatim>\<open>NAN\<close> and is
  tested with \<^verbatim>\<open>isnan\<close>, and a division by a zero \<^verbatim>\<open>sensitivity\<close> or \<^verbatim>\<open>resolution\<close> does
  not trap but yields an infinity or not-a-number.

  A finite value is the real number it denotes; the two zeros are one value (a zero
  divisor counts as \<open>+0\<close>). The operations \<open>+\<close>, \<open>-\<close>, \<open>*\<close>, \<open>/\<close> and \<open><\<close> below are the exact
  ones on these values, with the special values as in IEEE 754: not-a-number is
  absorbing, \<open>\<infinity> - \<infinity>\<close>, \<open>0 * \<infinity>\<close>, \<open>0 / 0\<close> and \<open>\<infinity> / \<infinity>\<close> are not-a-number, and every
  comparison with not-a-number is false. The rounding that a float or double operation
  of the device performs on the exact result is a separate function, \<open>to_float\<close> or
  \<open>to_double\<close>, defined after them. \<open>rawToVoltage\<close>, \<open>readFahrenheit\<close>, \<open>readKelvin\<close>
  and \<open>readFilteredTemperatureC\<close> apply it at every operation. \<open>voltageToCelsius\<close>,
  \<open>calibrate\<close> and \<open>FaultDetect\<close> are written with the exact operations; the values
  computed with them below are on the bench set-up, where the intermediate results of
  \<open>voltageToCelsius\<close> and \<open>calibrate\<close> are floats, so that nothing is rounded, and the
  voltages that \<open>FaultDetect\<close> compares lie far from the bounds of its window. Division
  is the constant that \<open>/\<close> denotes on \<open>cfloat\<close>; its defining equations have to write it
  \<open>div\<close>.
\<close>

datatype cfloat = Num real | PInf | NInf | NaN

fun isnan :: "cfloat \<Rightarrow> bool" where
  "isnan NaN = True"
| "isnan _ = False"

instantiation cfloat :: "{plus, uminus, minus, times, inverse, ord}"
begin

fun plus_cfloat :: "cfloat \<Rightarrow> cfloat \<Rightarrow> cfloat" where
  "Num x + Num y = Num (x + y)"
| "NaN + _ = NaN"
| "_ + NaN = NaN"
| "PInf + NInf = NaN"
| "NInf + PInf = NaN"
| "PInf + _ = PInf"
| "_ + PInf = PInf"
| "NInf + _ = NInf"
| "_ + NInf = NInf"

fun uminus_cfloat :: "cfloat \<Rightarrow> cfloat" where
  "- Num x = Num (- x)"
| "- PInf = NInf"
| "- NInf = PInf"
| "- NaN = NaN"

definition minus_cfloat :: "cfloat \<Rightarrow> cfloat \<Rightarrow> cfloat" where
  "minus_cfloat a b = a + (- b)"

fun times_cfloat :: "cfloat \<Rightarrow> cfloat \<Rightarrow> cfloat" where
  "Num x * Num y = Num (x * y)"
| "NaN * _ = NaN"
| "_ * NaN = NaN"
| "Num x * PInf = (if x = 0 then NaN else if 0 < x then PInf else NInf)"
| "Num x * NInf = (if x = 0 then NaN else if 0 < x then NInf else PInf)"
| "PInf * Num y = (if y = 0 then NaN else if 0 < y then PInf else NInf)"
| "NInf * Num y = (if y = 0 then NaN else if 0 < y then NInf else PInf)"
| "PInf * PInf = PInf"
| "NInf * NInf = PInf"
| "PInf * NInf = NInf"
| "NInf * PInf = NInf"

fun divide_cfloat :: "cfloat \<Rightarrow> cfloat \<Rightarrow> cfloat" where
  "Num x div Num y =
     (if y \<noteq> 0 then Num (x / y)
      else if x = 0 then NaN else if 0 < x then PInf else NInf)"
| "NaN div _ = NaN"
| "_ div NaN = NaN"
| "Num x div PInf = Num 0"
| "Num x div NInf = Num 0"
| "PInf div Num y = (if y < 0 then NInf else PInf)"
| "NInf div Num y = (if y < 0 then PInf else NInf)"
| "PInf div PInf = NaN"
| "PInf div NInf = NaN"
| "NInf div PInf = NaN"
| "NInf div NInf = NaN"

fun less_cfloat :: "cfloat \<Rightarrow> cfloat \<Rightarrow> bool" where
  "Num x < Num y = (x < y)"
| "NaN < _ = False"
| "_ < NaN = False"
| "_ < NInf = False"
| "PInf < _ = False"
| "NInf < _ = True"
| "Num x < PInf = True"

definition inverse_cfloat :: "cfloat \<Rightarrow> cfloat" where
  "inverse_cfloat a = Num 1 div a"

definition less_eq_cfloat :: "cfloat \<Rightarrow> cfloat \<Rightarrow> bool" where
  "less_eq_cfloat a b = (a < b \<or> (a = b \<and> \<not> isnan a))"

instance ..

end

subsection \<open>Rounding to a binary format\<close>

text \<open>
  \<open>rne r\<close> is the integer nearest to \<open>r\<close>, the even one of the two when \<open>r\<close> lies half-way
  (round to nearest, ties to even: the rounding mode the device runs in).
\<close>

definition rne :: "real \<Rightarrow> int" where
  "rne r =
     (let f = \<lfloor>r\<rfloor>; d = r - of_int f
      in if d < 1 / 2 then f else if 1 / 2 < d then f + 1 else if even f then f else f + 1)"

text \<open>
  \<open>ilog2 x\<close> is the binary exponent of a positive \<open>x\<close>: the \<open>e\<close> with
  \<open>2^e \<le> x < 2^(e+1)\<close> (lemma \<open>ilog2_bounds\<close> below).
\<close>

function ilog2 :: "real \<Rightarrow> int" where
  "ilog2 x =
     (if x \<le> 0 then 0
      else if 2 \<le> x then ilog2 (x / 2) + 1
      else if x < 1 then ilog2 (2 * x) - 1
      else 0)"
  by pat_completeness auto
termination
proof (relation "measure (\<lambda>x. nat \<lceil>x\<rceil> + 2 * nat \<lceil>1 / x\<rceil>)")
  show "wf (measure (\<lambda>x. nat \<lceil>x\<rceil> + 2 * nat \<lceil>1 / x\<rceil>))"
    by simp
next
  have half: "\<lceil>y / 2\<rceil> < \<lceil>y\<rceil>" if "2 \<le> y" for y :: real
  proof -
    from that have "y / 2 \<le> y - 1"
      by simp
    then have "\<lceil>y / 2\<rceil> \<le> \<lceil>y - 1\<rceil>"
      by (rule ceiling_mono)
    then show ?thesis
      by simp
  qed
  {
    fix x :: real
    assume "\<not> x \<le> 0" and large: "2 \<le> x"
    from large have "0 < \<lceil>x / 2\<rceil>"
      by (simp add: ceiling_less_iff)
    moreover from large have "0 < 2 / x" "2 / x \<le> 1" "0 < 1 / x" "1 / x \<le> 1"
      by simp_all
    then have "\<lceil>2 / x\<rceil> = 1" "\<lceil>1 / x\<rceil> = 1"
      by (simp_all add: ceiling_eq_iff)
    ultimately show "(x / 2, x) \<in> measure (\<lambda>x. nat \<lceil>x\<rceil> + 2 * nat \<lceil>1 / x\<rceil>)"
      using half [OF large] by simp
  next
    fix x :: real
    assume "\<not> x \<le> 0" and "\<not> 2 \<le> x" and small: "x < 1"
    then have pos: "0 < x"
      by simp
    from pos small have "\<lceil>x\<rceil> = 1"
      by (simp add: ceiling_eq_iff)
    then have cx: "nat \<lceil>x\<rceil> = 1"
      by simp
    from pos small have "0 < 2 * x" "2 * x \<le> 2"
      by simp_all
    then have c2x: "nat \<lceil>2 * x\<rceil> \<le> 2"
      by (simp add: ceiling_le_iff)
    from pos small have y: "1 < 1 / x"
      by simp
    have "\<lceil>(1 / x) / 2\<rceil> < \<lceil>1 / x\<rceil>"
    proof (cases "2 \<le> 1 / x")
      case True
      then show ?thesis
        by (rule half)
    next
      case False
      with pos have "0 < (1 / x) / 2" "(1 / x) / 2 \<le> 1"
        by (simp_all add: field_simps)
      then have "\<lceil>(1 / x) / 2\<rceil> = 1"
        by (simp add: ceiling_eq_iff)
      moreover from y have "1 < \<lceil>1 / x\<rceil>"
        by (simp add: less_ceiling_iff)
      ultimately show ?thesis
        by simp
    qed
    then have "\<lceil>1 / (2 * x)\<rceil> < \<lceil>1 / x\<rceil>"
      by (simp add: mult.commute)
    moreover from pos have "0 < \<lceil>1 / x\<rceil>"
      by (simp add: less_ceiling_iff)
    ultimately have "nat \<lceil>1 / (2 * x)\<rceil> < nat \<lceil>1 / x\<rceil>"
      by (simp add: nat_less_iff)
    with cx c2x
    have "nat \<lceil>2 * x\<rceil> + 2 * nat \<lceil>1 / (2 * x)\<rceil> < nat \<lceil>x\<rceil> + 2 * nat \<lceil>1 / x\<rceil>"
      by linarith
    then show "(2 * x, x) \<in> measure (\<lambda>x. nat \<lceil>x\<rceil> + 2 * nat \<lceil>1 / x\<rceil>)"
      by simp
  }
qed

text \<open>
  \<open>round_to p emin emax x\<close> rounds the real \<open>x\<close> to the binary format with \<open>p\<close> significant
  bits and exponents from \<open>emin\<close> to \<open>emax\<close>. The result is a multiple of the quantum
  \<open>2^q\<close>, where \<open>q\<close> is the exponent of \<open>x\<close> (not below \<open>emin\<close>: there the numbers are
  subnormal) less \<open>p - 1\<close>; a result of magnitude \<open>2^(emax+1)\<close> or more has overflowed and
  is an infinity. \<^verbatim>\<open>float\<close> is binary32. \<^verbatim>\<open>double\<close> is binary64 on 32-bit cores and the
  same type as \<^verbatim>\<open>float\<close> on AVR: \<open>to_double\<close> takes the width of the platform's
  \<^verbatim>\<open>double\<close> in bits.
\<close>

definition round_to :: "nat \<Rightarrow> int \<Rightarrow> int \<Rightarrow> real \<Rightarrow> cfloat" where
  "round_to p emin emax x =
     (if x = 0 then Num 0
      else let q = max (ilog2 \<bar>x\<bar>) emin - (int p - 1);
               r = of_int (rne (x / 2 powi q)) * 2 powi q
           in if 2 powi (emax + 1) \<le> \<bar>r\<bar> then (if 0 < x then PInf else NInf) else Num r)"

definition binary32 :: "real \<Rightarrow> cfloat" where
  "binary32 = round_to 24 (-126) 127"

definition binary64 :: "real \<Rightarrow> cfloat" where
  "binary64 = round_to 53 (-1022) 1023"

fun to_float :: "cfloat \<Rightarrow> cfloat" where
  "to_float (Num x) = binary32 x"
| "to_float PInf = PInf"
| "to_float NInf = NInf"
| "to_float NaN = NaN"

fun to_double :: "nat \<Rightarrow> cfloat \<Rightarrow> cfloat" where
  "to_double bits (Num x) = (if bits = 32 then binary32 x else binary64 x)"
| "to_double bits PInf = PInf"
| "to_double bits NInf = NInf"
| "to_double bits NaN = NaN"

subsection \<open>The object and the board\<close>

text \<open>
  The private members of \<^verbatim>\<open>class AD849x_7Semi\<close>, with the widths the header gives them.
\<close>

record AD849x_7Semi =
  analog_pin :: "8 word"
  reference_voltage :: cfloat
  resolution :: "16 word"
  offset_voltage :: cfloat
  sensitivity :: cfloat
  offset :: cfloat
  gain :: cfloat
  filtered_temperature :: cfloat
  avg_sample :: "8 word"

text \<open>
  The constructor's body is empty. Three members have default initialisers in the
  header (\<^verbatim>\<open>offset_voltage = 1.25\<close>, \<^verbatim>\<open>sensitivity = 0.005\<close>, \<^verbatim>\<open>avg_sample = 10\<close>); the others
  keep whatever the memory \<open>mem\<close> the object is built in holds.
\<close>

definition constructor :: "AD849x_7Semi \<Rightarrow> AD849x_7Semi" where
  "constructor mem =
     mem\<lparr>offset_voltage := Num 1.25, sensitivity := Num 0.005, avg_sample := 10\<rparr>"

text \<open>
  The driver runs on an Arduino board, through two primitives of the Arduino core that are
  not part of this repository. The board is what they act on: \<open>signal b p k\<close> is the
  \<^verbatim>\<open>int\<close> that the \<open>k\<close>-th conversion since power-up returns on pin \<open>p\<close>,
  \<open>conversions\<close> counts the conversions made so far, \<open>pin_modes\<close> records the configured
  pins, \<open>int_bits\<close> is the width of the platform's \<^verbatim>\<open>int\<close> (16 on AVR, 32 on ARM and
  ESP cores) and \<open>double_bits\<close> that of its \<^verbatim>\<open>double\<close> (32 on AVR, 64 on ARM and ESP
  cores).
\<close>

datatype pin_mode = INPUT | OUTPUT | INPUT_PULLUP

record board =
  int_bits :: nat
  double_bits :: nat
  signal :: "8 word \<Rightarrow> nat \<Rightarrow> int"
  conversions :: nat
  pin_modes :: "8 word \<Rightarrow> pin_mode option"

text \<open>
  Modelled from the spec: \<^verbatim>\<open>analogRead\<close>, the Arduino core's raw read (the spec's
  \<open>sampleRaw(channelId)\<close>), is not in the repository. It returns one instantaneous raw
  count on the given pin and always returns; each call is one more conversion.
\<close>

definition analogRead :: "8 word \<Rightarrow> board \<Rightarrow> int \<times> board" where
  "analogRead pin b = (signal b pin (conversions b), b\<lparr>conversions := Suc (conversions b)\<rparr>)"

text \<open>
  Modelled from the spec: \<^verbatim>\<open>pinMode\<close>, the Arduino core's pin configuration (the spec's
  \<open>configureInput(channelId)\<close>), is not in the repository. Its only effect is the mode
  of the pin.
\<close>

definition pinMode :: "8 word \<Rightarrow> pin_mode \<Rightarrow> board \<Rightarrow> board" where
  "pinMode pin m b = b\<lparr>pin_modes := (pin_modes b)(pin \<mapsto> m)\<rparr>"

text \<open>
  The conversion of a \<^verbatim>\<open>uint32_t\<close> to the platform's \<^verbatim>\<open>int\<close>: the low \<open>int_bits\<close> bits,
  read as two's complement.
\<close>

definition to_int :: "nat \<Rightarrow> 32 word \<Rightarrow> int" where
  "to_int w v = signed_take_bit (w - 1) (uint v)"

subsection \<open>Initialization and configuration\<close>

text \<open>
  \<^verbatim>\<open>begin\<close> is written \<open>begin'\<close>, the plain name being a keyword of Isabelle. The setters
  store their argument as it is; only \<^verbatim>\<open>setSampling\<close> looks at it.
\<close>

definition begin' :: "8 word \<Rightarrow> cfloat \<Rightarrow> 16 word \<Rightarrow> AD849x_7Semi \<Rightarrow> board \<Rightarrow> AD849x_7Semi \<times> board" where
  "begin' analogPin vRef adcResolution s b =
     (let s = s\<lparr>analog_pin := analogPin, reference_voltage := vRef,
                 resolution := adcResolution\<rparr>;
          s = s\<lparr>offset := Num 0, gain := Num 1\<rparr>;
          s = s\<lparr>filtered_temperature := NaN, avg_sample := 10\<rparr>
      in (s, pinMode (analog_pin s) INPUT b))"

definition setVref :: "cfloat \<Rightarrow> AD849x_7Semi \<Rightarrow> AD849x_7Semi" where
  "setVref vRef s = s\<lparr>reference_voltage := vRef\<rparr>"

definition setADCResolution :: "16 word \<Rightarrow> AD849x_7Semi \<Rightarrow> AD849x_7Semi" where
  "setADCResolution adcResolution s = s\<lparr>resolution := adcResolution\<rparr>"

definition setOffsetVoltage :: "cfloat \<Rightarrow> AD849x_7Semi \<Rightarrow> AD849x_7Semi" where
  "setOffsetVoltage v s = s\<lparr>offset_voltage := v\<rparr>"

definition setSensitivity :: "cfloat \<Rightarrow> AD849x_7Semi \<Rightarrow> AD849x_7Semi" where
  "setSensitivity voltsPerDegC s = s\<lparr>sensitivity := voltsPerDegC\<rparr>"

definition setSampling :: "8 word \<Rightarrow> AD849x_7Semi \<Rightarrow> AD849x_7Semi" where
  "setSampling samples s =
     (let samples = (if samples = 0 then 1 else samples);
          samples = (if samples > 200 then 200 else samples)
      in s\<lparr>avg_sample := samples\<rparr>)"

definition getSampling :: "AD849x_7Semi \<Rightarrow> 8 word" where
  "getSampling s = avg_sample s"

subsection \<open>Reading\<close>

text \<open>
  The loop of \<^verbatim>\<open>readRaw\<close>: \<open>i\<close> is the \<^verbatim>\<open>uint8_t\<close> counter, \<open>val\<close> the \<^verbatim>\<open>uint32_t\<close>
  accumulator (the source calls it \<^verbatim>\<open>value\<close>). Adding the \<^verbatim>\<open>int\<close> that \<^verbatim>\<open>analogRead\<close>
  returns converts it to \<^verbatim>\<open>uint32_t\<close> first, and the sum wraps modulo \<open>2^32\<close>.
\<close>

function readRaw_loop :: "AD849x_7Semi \<Rightarrow> 8 word \<Rightarrow> 32 word \<Rightarrow> board \<Rightarrow> 32 word \<times> board" where
  "readRaw_loop s i val b =
     (if i < avg_sample s
      then readRaw_loop s (i + 1) (val + word_of_int (fst (analogRead (analog_pin s) b)))
             (snd (analogRead (analog_pin s) b))
      else (val, b))"
  by pat_completeness auto
termination
proof (relation "measure (\<lambda>(s, i, val, b). unat (avg_sample s) - unat i)")
  show "wf (measure (\<lambda>(s, i, val, b). unat (avg_sample s) - unat i))"
    by simp
next
  fix s :: AD849x_7Semi and i :: "8 word" and val :: "32 word" and b :: board
  assume less: "i < avg_sample s"
  then have below: "unat i < unat (avg_sample s)"
    by (simp add: word_less_nat_alt)
  have "unat (avg_sample s) < 256"
    using unsigned_less [of "avg_sample s", where ?'a = nat] by simp
  moreover have "unat (i + 1) = (unat i + 1) mod 256"
    by (simp add: unat_word_ariths)
  ultimately have "unat (i + 1) = Suc (unat i)"
    using below by simp
  with below show "((s, i + 1, val + word_of_int (fst (analogRead (analog_pin s) b)),
                     snd (analogRead (analog_pin s) b)), (s, i, val, b))
                   \<in> measure (\<lambda>(s, i, val, b). unat (avg_sample s) - unat i)"
    by simp
qed

text \<open>
  \<^verbatim>\<open>value / avg_sample\<close> is an unsigned 32-bit division; its quotient is converted to the
  \<^verbatim>\<open>int\<close> that \<^verbatim>\<open>readRaw\<close> returns. With \<^verbatim>\<open>avg_sample\<close> zero the loop body never runs and
  the division is by zero, which is undefined in C++: that is the result \<open>None\<close>.
\<close>

definition readRaw :: "AD849x_7Semi \<Rightarrow> board \<Rightarrow> (int \<times> board) option" where
  "readRaw s b =
     (case readRaw_loop s 0 0 b of
        (val, b') \<Rightarrow>
          if avg_sample s = 0 then None
          else Some (to_int (int_bits b') (val div ucast (avg_sample s)), b'))"

text \<open>
  \<^verbatim>\<open>(raw * reference_voltage) / resolution\<close>: the \<^verbatim>\<open>int\<close> is converted to \<^verbatim>\<open>float\<close>, the
  product is a float product and the quotient a float quotient, each rounded. The
  \<^verbatim>\<open>uint16_t\<close> divisor is below \<open>2^24\<close>, so its conversion to \<^verbatim>\<open>float\<close> is exact
  (lemma \<open>binary32_small_int\<close> below).
\<close>

definition rawToVoltage :: "AD849x_7Semi \<Rightarrow> int \<Rightarrow> cfloat" where
  "rawToVoltage s raw =
     to_float (to_float (to_float (Num (real_of_int raw)) * reference_voltage s)
               / Num (real (unat (resolution s))))"

definition readVoltage :: "AD849x_7Semi \<Rightarrow> board \<Rightarrow> (cfloat \<times> board) option" where
  "readVoltage s b = do {
     (raw, b') \<leftarrow> readRaw s b;
     Some (rawToVoltage s raw, b')
   }"

subsection \<open>Temperature\<close>

definition voltageToCelsius :: "AD849x_7Semi \<Rightarrow> cfloat \<Rightarrow> cfloat" where
  "voltageToCelsius s voltage =
     (let temp = (voltage - offset_voltage s) / sensitivity s;
          temp = (temp * gain s) + offset s
      in temp)"

definition readCelsius :: "AD849x_7Semi \<Rightarrow> board \<Rightarrow> (cfloat \<times> board) option" where
  "readCelsius s b = do {
     (v, b') \<leftarrow> readVoltage s b;
     Some (voltageToCelsius s v, b')
   }"

text \<open>
  \<^verbatim>\<open>(readCelsius() * 9.0 / 5.0) + 32.0\<close> and \<^verbatim>\<open>readCelsius() + 273.15\<close>: the literals are
  \<^verbatim>\<open>double\<close>, so every operation is a double operation, rounded to \<^verbatim>\<open>double\<close>, and the
  \<^verbatim>\<open>float\<close> return type rounds the result once more. \<open>9\<close>, \<open>5\<close> and \<open>32\<close> are doubles;
  \<open>273.15\<close> is not, and the literal is the double nearest to it.
\<close>

definition readFahrenheit :: "AD849x_7Semi \<Rightarrow> board \<Rightarrow> (cfloat \<times> board) option" where
  "readFahrenheit s b = do {
     (c, b') \<leftarrow> readCelsius s b;
     Some (to_float
             (to_double (double_bits b)
                (to_double (double_bits b) (to_double (double_bits b) (c * Num 9) / Num 5)
                 + Num 32)), b')
   }"

definition readKelvin :: "AD849x_7Semi \<Rightarrow> board \<Rightarrow> (cfloat \<times> board) option" where
  "readKelvin s b = do {
     (c, b') \<leftarrow> readCelsius s b;
     Some (to_float
             (to_double (double_bits b) (c + to_double (double_bits b) (Num 273.15))), b')
   }"

subsection \<open>Calibration, filtering, diagnostics\<close>

definition calibrate :: "cfloat \<Rightarrow> AD849x_7Semi \<Rightarrow> board \<Rightarrow> (AD849x_7Semi \<times> board) option" where
  "calibrate actualTempC s b = do {
     (measured, b') \<leftarrow> readCelsius s b;
     Some (s\<lparr>offset := actualTempC - measured\<rparr>, b')
   }"

text \<open>
  \<^verbatim>\<open>alpha * current + (1.0 - alpha) * filtered_temperature\<close>: \<^verbatim>\<open>alpha * current\<close> is a
  float product; \<^verbatim>\<open>1.0\<close> is a \<^verbatim>\<open>double\<close>, so the difference, the second product and the
  sum are double operations; the assignment to the \<^verbatim>\<open>float\<close> member rounds the sum.
\<close>

definition readFilteredTemperatureC ::
  "cfloat \<Rightarrow> AD849x_7Semi \<Rightarrow> board \<Rightarrow> (cfloat \<times> AD849x_7Semi \<times> board) option" where
  "readFilteredTemperatureC alpha s b = do {
     (current, b') \<leftarrow> readCelsius s b;
     let s = (if isnan (filtered_temperature s)
              then s\<lparr>filtered_temperature := current\<rparr> else s);
     let s = s\<lparr>filtered_temperature :=
                  to_float
                    (to_double (double_bits b)
                       (to_float (alpha * current)
                        + to_double (double_bits b)
                            (to_double (double_bits b) (Num 1 - alpha)
                             * filtered_temperature s)))\<rparr>;
     Some (filtered_temperature s, s, b')
   }"

definition FaultDetect :: "AD849x_7Semi \<Rightarrow> board \<Rightarrow> (8 word \<times> board) option" where
  "FaultDetect s b = do {
     (v, b') \<leftarrow> readVoltage s b;
     Some (if Num 0.1 < v \<and> v < reference_voltage s - Num 0.1 then 1 else 0, b')
   }"

subsection \<open>The public interface as a transition system\<close>

text \<open>
  One constructor per public member function, with its arguments. \<open>exec\<close> is the effect
  of a call on the object and the board; the value the call returns is dropped.
\<close>

datatype call =
    Do_begin "8 word" cfloat "16 word"
  | Do_setVref cfloat
  | Do_setADCResolution "16 word"
  | Do_setOffsetVoltage cfloat
  | Do_setSensitivity cfloat
  | Do_setSampling "8 word"
  | Do_getSampling
  | Do_readRaw
  | Do_rawToVoltage int
  | Do_readVoltage
  | Do_voltageToCelsius cfloat
  | Do_readCelsius
  | Do_readFahrenheit
  | Do_readKelvin
  | Do_calibrate cfloat
  | Do_readFilteredTemperatureC cfloat
  | Do_FaultDetect

fun exec :: "call \<Rightarrow> AD849x_7Semi \<Rightarrow> board \<Rightarrow> (AD849x_7Semi \<times> board) option" where
  "exec (Do_begin analogPin vRef adcResolution) s b = Some (begin' analogPin vRef adcResolution s b)"
| "exec (Do_setVref vRef) s b = Some (setVref vRef s, b)"
| "exec (Do_setADCResolution adcResolution) s b = Some (setADCResolution adcResolution s, b)"
| "exec (Do_setOffsetVoltage v) s b = Some (setOffsetVoltage v s, b)"
| "exec (Do_setSensitivity v) s b = Some (setSensitivity v s, b)"
| "exec (Do_setSampling samples) s b = Some (setSampling samples s, b)"
| "exec Do_getSampling s b = Some (s, b)"
| "exec Do_readRaw s b = map_option (\<lambda>r. (s, snd r)) (readRaw s b)"
| "exec (Do_rawToVoltage raw) s b = Some (s, b)"
| "exec Do_readVoltage s b = map_option (\<lambda>r. (s, snd r)) (readVoltage s b)"
| "exec (Do_voltageToCelsius v) s b = Some (s, b)"
| "exec Do_readCelsius s b = map_option (\<lambda>r. (s, snd r)) (readCelsius s b)"
| "exec Do_readFahrenheit s b = map_option (\<lambda>r. (s, snd r)) (readFahrenheit s b)"
| "exec Do_readKelvin s b = map_option (\<lambda>r. (s, snd r)) (readKelvin s b)"
| "exec (Do_calibrate actualTempC) s b = calibrate actualTempC s b"
| "exec (Do_readFilteredTemperatureC alpha) s b = map_option snd (readFilteredTemperatureC alpha s b)"
| "exec Do_FaultDetect s b = map_option (\<lambda>r. (s, snd r)) (FaultDetect s b)"

text \<open>
  The state invariants as the data model words them: \<open>maxCount > 0\<close>,
  \<open>sensitivity \<noteq> 0\<close>, \<open>1 \<le> sampleCount \<le> 200\<close>.
\<close>

definition sampling_ok :: "AD849x_7Semi \<Rightarrow> bool" where
  "sampling_ok s = (1 \<le> avg_sample s \<and> avg_sample s \<le> 200)"

definition divisors_ok :: "AD849x_7Semi \<Rightarrow> bool" where
  "divisors_ok s = (0 < resolution s \<and> sensitivity s \<noteq> Num 0)"

definition invariants :: "AD849x_7Semi \<Rightarrow> bool" where
  "invariants s = (divisors_ok s \<and> sampling_ok s)"

text \<open>
  The calls that store a divisor, and whether the value they are given is a valid one.
\<close>

fun stores_valid_divisor :: "call \<Rightarrow> bool" where
  "stores_valid_divisor (Do_begin analogPin vRef adcResolution) = (0 < adcResolution)"
| "stores_valid_divisor (Do_setADCResolution adcResolution) = (0 < adcResolution)"
| "stores_valid_divisor (Do_setSensitivity v) = (v \<noteq> Num 0)"
| "stores_valid_divisor _ = True"

text \<open>
  What a call leaves in \<^verbatim>\<open>resolution\<close> and in \<^verbatim>\<open>sensitivity\<close>, given what was there:
  \<open>begin\<close> and \<open>setADCResolution\<close> store their argument in the first, \<open>setSensitivity\<close>
  in the second, and no other call writes either.
\<close>

fun stored_resolution :: "call \<Rightarrow> 16 word \<Rightarrow> 16 word" where
  "stored_resolution (Do_begin analogPin vRef adcResolution) before = adcResolution"
| "stored_resolution (Do_setADCResolution adcResolution) before = adcResolution"
| "stored_resolution _ before = before"

fun stored_sensitivity :: "call \<Rightarrow> cfloat \<Rightarrow> cfloat" where
  "stored_sensitivity (Do_setSensitivity v) before = v"
| "stored_sensitivity _ before = before"

subsection \<open>A bench set-up\<close>

text \<open>
  A configuration whose numbers are all exact in binary floating point, so that the
  idealised arithmetic of the model and the arithmetic of the device agree on it:
  \<open>begin(0, 4.0, 1024)\<close>, \<open>setOffsetVoltage(1.0)\<close>, \<open>setSensitivity(0.5)\<close>. A raw count
  of 512 is then 2 V and 2 degrees Celsius. \<open>steady r\<close> is the signal that returns \<open>r\<close>
  at every conversion, on every pin.
\<close>

definition steady :: "int \<Rightarrow> 8 word \<Rightarrow> nat \<Rightarrow> int" where
  "steady r pin k = r"

definition bench_board :: "(8 word \<Rightarrow> nat \<Rightarrow> int) \<Rightarrow> board" where
  "bench_board sig =
     \<lparr>int_bits = 32, double_bits = 64, signal = sig, conversions = 0, pin_modes = Map.empty\<rparr>"

definition bench_sensor :: AD849x_7Semi where
  "bench_sensor =
     \<lparr>analog_pin = 0, reference_voltage = Num 4, resolution = 1024,
      offset_voltage = Num 1, sensitivity = Num 0.5, offset = Num 0, gain = Num 1,
      filtered_temperature = NaN, avg_sample = 10\<rparr>"


text \<open>
  The same board as an AVR has it: \<^verbatim>\<open>int\<close> is 16 bits wide and \<^verbatim>\<open>double\<close> is the same type
  as \<^verbatim>\<open>float\<close>.
\<close>

definition avr_board :: "(8 word \<Rightarrow> nat \<Rightarrow> int) \<Rightarrow> board" where
  "avr_board sig =
     \<lparr>int_bits = 16, double_bits = 32, signal = sig, conversions = 0, pin_modes = Map.empty\<rparr>"

text \<open>
  \<open>ramp\<close> is a 10-bit signal that changes at every conversion: the \<open>k\<close>-th one
  returns \<open>k mod 1024\<close>.
\<close>

definition ramp :: "8 word \<Rightarrow> nat \<Rightarrow> int" where
  "ramp pin k = int (k mod 1024)"

text \<open>
  The exact (unbounded) sum of the raw counts that the next \<^verbatim>\<open>avg_sample\<close> conversions
  return: what the accumulator of \<open>readRaw\<close> holds when it does not wrap.
\<close>

definition acquired :: "AD849x_7Semi \<Rightarrow> board \<Rightarrow> int" where
  "acquired s b = (\<Sum>j<unat (avg_sample s). signal b (analog_pin s) (conversions b + j))"

section \<open>Properties\<close>

subsection \<open>Rounding\<close>

declare ilog2.simps [simp del]

lemma ilog2_bounds:
  "0 < x \<Longrightarrow> 2 powi (ilog2 x) \<le> x \<and> x < 2 powi (ilog2 x + 1)"
proof (induction x rule: ilog2.induct)
  case (1 x)
  show ?case
  proof (cases "2 \<le> x")
    case True
    with "1.prems" have IH: "2 powi (ilog2 (x / 2)) \<le> x / 2 \<and> x / 2 < 2 powi (ilog2 (x / 2) + 1)"
      by (intro "1.IH"(1)) simp_all
    from True "1.prems" have e: "ilog2 x = ilog2 (x / 2) + 1"
      by (subst ilog2.simps) simp
    from IH show ?thesis
      unfolding e by (simp add: power_int_add)
  next
    case False
    show ?thesis
    proof (cases "x < 1")
      case True
      with False "1.prems" have IH: "2 powi (ilog2 (2 * x)) \<le> 2 * x \<and> 2 * x < 2 powi (ilog2 (2 * x) + 1)"
        by (intro "1.IH"(2)) simp_all
      from True False "1.prems" have e: "ilog2 x = ilog2 (2 * x) - 1"
        by (subst ilog2.simps) simp
      from IH show ?thesis
        unfolding e by (simp add: power_int_add power_int_diff)
    next
      case large: False
      with False "1.prems" have "ilog2 x = 0"
        by (subst ilog2.simps) simp
      with False large show ?thesis
        by simp
    qed
  qed
qed


lemma rne_of_int: "rne (of_int k) = k"
  by (simp add: rne_def)

lemma round_to_small_int:
  assumes small: "\<bar>k\<bar> < 2 ^ p" and emin: "emin \<le> 0" and emax: "int p \<le> emax + 1"
  shows "round_to p emin emax (of_int k) = Num (of_int k)"
proof (cases "k = 0")
  case True
  then show ?thesis
    by (simp add: round_to_def)
next
  case False
  define x :: real where "x = of_int k"
  define e where "e = ilog2 \<bar>x\<bar>"
  from False have one: "1 \<le> \<bar>x\<bar>"
    by (simp add: x_def flip: of_int_abs)
  then have "0 < \<bar>x\<bar>"
    by linarith
  from ilog2_bounds [OF this] have lo: "2 powi e \<le> \<bar>x\<bar>" and hi: "\<bar>x\<bar> < 2 powi (e + 1)"
    by (simp_all add: e_def)
  from small have less: "\<bar>x\<bar> < 2 ^ p"
    unfolding x_def by (metis of_int_abs of_int_less_iff of_int_numeral of_int_power)
  have e0: "0 \<le> e"
  proof (rule ccontr)
    assume "\<not> 0 \<le> e"
    then have "e + 1 \<le> 0" by simp
    then have "(2::real) powi (e + 1) \<le> 2 powi 0"
      by (intro power_int_increasing) simp_all
    with hi one show False by simp
  qed
  have ep: "e < int p"
  proof (rule ccontr)
    assume "\<not> e < int p"
    then have "int p \<le> e" by simp
    then have "(2::real) powi (int p) \<le> 2 powi e"
      by (intro power_int_increasing) simp_all
    with lo less show False by simp
  qed
  define n where "n = nat (int p - 1 - e)"
  from e0 emin have q: "max e emin - (int p - 1) = - int n"
    using ep by (simp add: n_def)
  have pw: "(2::real) powi (- int n) = 1 / 2 ^ n"
    by (simp add: power_int_minus field_simps)
  have scaled: "x / 2 powi (- int n) = of_int (k * 2 ^ n)"
    by (simp add: pw x_def)
  have restore: "real_of_int (k * 2 ^ n) * 2 powi (- int n) = x"
    by (simp add: pw x_def)
  from emax have "(2::real) powi (int p) \<le> 2 powi (emax + 1)"
    by (intro power_int_increasing) simp_all
  with less have fin: "\<not> 2 powi (emax + 1) \<le> \<bar>x\<bar>"
    by simp
  from False have "x \<noteq> 0"
    by (simp add: x_def)
  then have "round_to p emin emax x = Num x"
    unfolding round_to_def Let_def e_def [symmetric] q scaled rne_of_int restore
    using fin by simp
  then show ?thesis
    by (simp add: x_def)
qed

lemma binary32_small_int: "\<bar>k\<bar> < 2 ^ 24 \<Longrightarrow> binary32 (of_int k) = Num (of_int k)"
  unfolding binary32_def by (rule round_to_small_int) simp_all

lemma binary64_small_int: "\<bar>k\<bar> < 2 ^ 53 \<Longrightarrow> binary64 (of_int k) = Num (of_int k)"
  unfolding binary64_def by (rule round_to_small_int) simp_all

subsection \<open>The acquisition loop\<close>

lemma word8_Suc:
  fixes i n :: "8 word"
  assumes less: "i < n"
  shows "unat (i + 1) = Suc (unat i)"
proof -
  from less have "unat i < unat n"
    by (simp add: word_less_nat_alt)
  moreover have "unat n < 256"
    using unsigned_less [of n, where ?'a = nat] by simp
  moreover have "unat (i + 1) = (unat i + 1) mod 256"
    by (simp add: unat_word_ariths)
  ultimately show ?thesis by simp
qed

text \<open>
  From counter \<open>i\<close> on, the loop makes one conversion per remaining count and adds each
  raw value to the accumulator.
\<close>

lemma readRaw_loop_sum:
  "i \<le> avg_sample s \<Longrightarrow>
   readRaw_loop s i val b =
     (val + word_of_int (\<Sum>j<unat (avg_sample s) - unat i.
                            signal b (analog_pin s) (conversions b + j)),
      b\<lparr>conversions := conversions b + (unat (avg_sample s) - unat i)\<rparr>)"
proof (induction s i val b rule: readRaw_loop.induct)
  case (1 s i val b)
  show ?case
  proof (cases "i < avg_sample s")
    case True
    then have suc: "unat (i + 1) = Suc (unat i)"
      by (rule word8_Suc)
    from True have lt: "unat i < unat (avg_sample s)"
      by (simp add: word_less_nat_alt)
    with suc have "i + 1 \<le> avg_sample s"
      by (simp add: word_le_nat_alt)
    note IH = "1.IH" [OF True this]
    from lt suc
    have d: "unat (avg_sample s) - unat i = Suc (unat (avg_sample s) - unat (i + 1))"
      by simp
    show ?thesis
      apply (subst readRaw_loop.simps)
      apply (simp only: True if_True IH)
      apply (simp add: analogRead_def d sum.lessThan_Suc_shift del: sum.lessThan_Suc)
      done
  next
    case False
    with "1.prems" have "i = avg_sample s"
      by simp
    then show ?thesis
      by (subst readRaw_loop.simps) simp
  qed
qed

lemma readRaw_sum:
  assumes "avg_sample s \<noteq> 0"
  shows "readRaw s b =
    Some (to_int (int_bits b) (word_of_int (acquired s b) div ucast (avg_sample s)),
          b\<lparr>conversions := conversions b + unat (avg_sample s)\<rparr>)"
proof -
  have "readRaw_loop s 0 0 b =
     (word_of_int (acquired s b), b\<lparr>conversions := conversions b + unat (avg_sample s)\<rparr>)"
    using readRaw_loop_sum [of 0 s 0 b] by (simp add: acquired_def)
  with assms show ?thesis
    by (simp add: readRaw_def)
qed

lemma ucast_8_32: "uint (ucast (n :: 8 word) :: 32 word) = uint n"
proof -
  have "uint n < 2 ^ 8"
    using unsigned_less [of n, where ?'a = int] by simp
  then have "take_bit 32 (uint n) = uint n"
    by (intro take_bit_int_eq_self) simp_all
  then show ?thesis
    by (simp add: unsigned_ucast_eq)
qed

lemma mean_word:
  fixes n :: "8 word"
  assumes "0 \<le> S" and "S < 2 ^ 32"
  shows "uint ((word_of_int S :: 32 word) div ucast n) = S div uint n"
proof -
  from assms have "uint (word_of_int S :: 32 word) = S"
    by (simp add: uint_word_of_int)
  then show ?thesis
    by (simp add: uint_div ucast_8_32)
qed

lemma acquired_bounds:
  assumes range: "\<forall>k. 0 \<le> signal b (analog_pin s) k \<and> signal b (analog_pin s) k \<le> M"
  shows "0 \<le> acquired s b" and "acquired s b \<le> uint (avg_sample s) * M"
proof -
  show "0 \<le> acquired s b"
    unfolding acquired_def using range by (intro sum_nonneg) simp
  have "acquired s b \<le> of_nat (card {..<unat (avg_sample s)}) * M"
    unfolding acquired_def using range by (intro sum_bounded_above) simp
  then show "acquired s b \<le> uint (avg_sample s) * M"
    by simp
qed

text \<open>
  When no raw value exceeds \<open>M\<close>, the accumulator holds the exact sum and the result is
  its quotient by the sample count.
\<close>

lemma readRaw_exact:
  assumes count: "sampling_ok s"
    and range: "\<forall>k. 0 \<le> signal b (analog_pin s) k \<and> signal b (analog_pin s) k \<le> M"
    and acc: "200 * M < 2 ^ 32"
    and int: "M < 2 ^ (int_bits b - 1)"
  shows "uint (fst (readRaw_loop s 0 0 b)) = acquired s b
       \<and> readRaw s b = Some (acquired s b div uint (avg_sample s),
                             b\<lparr>conversions := conversions b + unat (avg_sample s)\<rparr>)
       \<and> 0 \<le> acquired s b div uint (avg_sample s)
       \<and> acquired s b div uint (avg_sample s) \<le> M"
proof -
  let ?n = "uint (avg_sample s)"
  let ?S = "acquired s b"
  from count have n: "1 \<le> ?n" "?n \<le> 200"
    by (simp_all add: sampling_ok_def word_le_def)
  then have nz: "avg_sample s \<noteq> 0"
    by auto
  from range have M: "0 \<le> M"
    by (meson order_trans)
  have S0: "0 \<le> ?S" and SM: "?S \<le> ?n * M"
    using acquired_bounds [OF range] by simp_all
  from n M have "?n * M \<le> 200 * M"
    by (intro mult_right_mono) simp_all
  with SM acc have S32: "?S < 2 ^ 32"
    by linarith
  have lo: "0 \<le> ?S div ?n"
    using S0 n by (simp add: pos_imp_zdiv_nonneg_iff)
  have "?S div ?n \<le> (?n * M) div ?n"
    using SM n by (intro zdiv_mono1) simp_all
  with n have hi: "?S div ?n \<le> M"
    by simp
  have loop: "fst (readRaw_loop s 0 0 b) = word_of_int ?S"
    using readRaw_loop_sum [of 0 s 0 b] by (simp add: acquired_def)
  with S0 S32 have sum: "uint (fst (readRaw_loop s 0 0 b)) = ?S"
    by (simp add: uint_word_of_int)
  have "signed_take_bit (int_bits b - 1) (?S div ?n) = ?S div ?n"
    using lo hi int by (intro signed_take_bit_int_eq_self) simp_all
  with S0 S32 have "to_int (int_bits b) (word_of_int ?S div ucast (avg_sample s)) = ?S div ?n"
    by (simp add: to_int_def mean_word)
  with nz have "readRaw s b = Some (?S div ?n, b\<lparr>conversions := conversions b + unat (avg_sample s)\<rparr>)"
    by (simp add: readRaw_sum)
  with sum lo hi show ?thesis
    by simp
qed

text \<open>On a steady signal the mean is the signal, wherever the conversion counter stands.\<close>

lemma acquired_steady:
  assumes "\<forall>k. signal b (analog_pin s) k = r"
  shows "acquired s b = uint (avg_sample s) * r"
  using assms by (simp add: acquired_def)

lemma readRaw_steady:
  assumes count: "sampling_ok s"
    and steady: "\<forall>k. signal b (analog_pin s) k = r"
    and r: "0 \<le> r" "200 * r < 2 ^ 32" "r < 2 ^ (int_bits b - 1)"
  shows "readRaw s b = Some (r, b\<lparr>conversions := conversions b + unat (avg_sample s)\<rparr>)"
proof -
  from steady r have "\<forall>k. 0 \<le> signal b (analog_pin s) k \<and> signal b (analog_pin s) k \<le> r"
    by simp
  from readRaw_exact [OF count this r(2) r(3)]
  have "readRaw s b = Some (acquired s b div uint (avg_sample s),
                            b\<lparr>conversions := conversions b + unat (avg_sample s)\<rparr>)"
    by (elim conjE)
  moreover from count have "0 < uint (avg_sample s)"
    by (simp add: sampling_ok_def word_le_def)
  ultimately show ?thesis
    by (simp add: acquired_steady [OF steady])
qed

lemma readRaw_steady_any:
  assumes "avg_sample s \<noteq> 0" and "\<forall>k. signal b (analog_pin s) k = r"
  shows "readRaw s b =
    Some (to_int (int_bits b) (word_of_int (uint (avg_sample s) * r) div ucast (avg_sample s)),
          b\<lparr>conversions := conversions b + unat (avg_sample s)\<rparr>)"
  using assms by (simp add: readRaw_sum acquired_steady)

lemma readCelsius_steady_any:
  assumes "avg_sample s \<noteq> 0" and "\<forall>k. signal b (analog_pin s) k = r"
  shows "readCelsius s b =
    Some (voltageToCelsius s (rawToVoltage s
            (to_int (int_bits b) (word_of_int (uint (avg_sample s) * r) div ucast (avg_sample s)))),
          b\<lparr>conversions := conversions b + unat (avg_sample s)\<rparr>)"
  by (simp add: readCelsius_def readVoltage_def readRaw_steady_any [OF assms])

lemma readVoltage_steady:
  assumes "sampling_ok s" and "\<forall>k. signal b (analog_pin s) k = r"
    and "0 \<le> r" "200 * r < 2 ^ 32" "r < 2 ^ (int_bits b - 1)"
  shows "readVoltage s b =
    Some (rawToVoltage s r, b\<lparr>conversions := conversions b + unat (avg_sample s)\<rparr>)"
  by (simp add: readVoltage_def readRaw_steady [OF assms])

lemma readCelsius_steady:
  assumes "sampling_ok s" and "\<forall>k. signal b (analog_pin s) k = r"
    and "0 \<le> r" "200 * r < 2 ^ 32" "r < 2 ^ (int_bits b - 1)"
  shows "readCelsius s b =
    Some (voltageToCelsius s (rawToVoltage s r),
          b\<lparr>conversions := conversions b + unat (avg_sample s)\<rparr>)"
  by (simp add: readCelsius_def readVoltage_steady [OF assms])


lemma readCelsius_returns:
  assumes "avg_sample s \<noteq> 0"
  shows "\<exists>c b'. readCelsius s b = Some (c, b')"
  by (simp add: readCelsius_def readVoltage_def readRaw_sum [OF assms])

subsection \<open>Facts about \<^verbatim>\<open>float\<close> arithmetic\<close>


lemma cfloat_sum_Num:
  assumes "x + Num y = Num m"
  shows "x = Num (m - y)"
  using assms by (cases x) simp_all

text \<open>The rules that evaluate a rounding at a given number.\<close>

lemmas round_eval =
  binary32_def binary64_def round_to_def ilog2.simps rne_def Let_def power_int_def power_one_over

lemma to_float_zero: "to_float (Num 0) = Num 0"
  by (simp add: binary32_def round_to_def)

lemma to_float_small_int: "\<bar>k\<bar> < 2 ^ 24 \<Longrightarrow> to_float (Num (of_int k)) = Num (of_int k)"
  by (simp add: binary32_small_int)

subsection \<open>Facts about the bench set-up\<close>

lemma ramp_range: "0 \<le> ramp pin k \<and> ramp pin k \<le> 1023"
proof -
  have "k mod 1024 < 1024"
    by (rule mod_less_divisor) simp
  then show ?thesis
    unfolding ramp_def by linarith
qed

lemma bench_board_simps:
  "int_bits (bench_board sig) = 32"
  "double_bits (bench_board sig) = 64"
  "signal (bench_board sig) = sig"
  "conversions (bench_board sig) = 0"
  by (simp_all add: bench_board_def)

lemma avr_board_simps:
  "int_bits (avr_board sig) = 16"
  "double_bits (avr_board sig) = 32"
  "signal (avr_board sig) = sig"
  "conversions (avr_board sig) = 0"
  by (simp_all add: avr_board_def)

text \<open>The bench sensor is what the set-up calls leave, on any freshly constructed object.\<close>

lemma bench_sensor_reachable:
  "setSensitivity (Num 0.5) (setOffsetVoltage (Num 1)
     (fst (begin' 0 (Num 4) 1024 (constructor mem) b))) = bench_sensor"
  by (simp add: setSensitivity_def setOffsetVoltage_def begin'_def constructor_def bench_sensor_def)

lemma bench_steady: "\<forall>k. signal (bench_board (steady r)) pin k = r"
  by (simp add: bench_board_simps steady_def)

lemma avr_steady: "\<forall>k. signal (avr_board (steady r)) pin k = r"
  by (simp add: avr_board_simps steady_def)

lemma bench_sampling: "sampling_ok bench_sensor"
  by (simp add: sampling_ok_def bench_sensor_def)

lemma bench_count:
  "avg_sample bench_sensor = 10"
  "uint (avg_sample bench_sensor) = 10"
  "unat (avg_sample bench_sensor) = 10"
  by (simp_all add: bench_sensor_def)

lemma bench_nonzero: "avg_sample bench_sensor \<noteq> 0"
  by (simp add: bench_count)

text \<open>
  On a 4 V reference with a full scale of 1024 counts nothing is rounded at these raw
  counts: 4, 512, 896 and 1024 counts are 1/64 V, 2 V, 3.5 V and 4 V.
\<close>

lemma bench_rawToVoltage:
  assumes "reference_voltage s = Num 4" and "resolution s = 1024"
  shows "rawToVoltage s 4 = Num (1 / 64)" and "rawToVoltage s 512 = Num 2"
    and "rawToVoltage s 896 = Num (7 / 2)" and "rawToVoltage s 1024 = Num 4"
  using assms by (simp_all add: rawToVoltage_def round_eval)

text \<open>
  With a calibration offset of \<open>x\<close> degrees, the bench sensor reads \<open>2 + x\<close> degrees on a
  steady raw count of 512.
\<close>

lemma bench_offset_readCelsius:
  "readCelsius (bench_sensor\<lparr>offset := Num x\<rparr>)
       (bench_board (steady 512)\<lparr>conversions := n\<rparr>) =
     Some (Num (2 + x), bench_board (steady 512)\<lparr>conversions := n + 10\<rparr>)"
proof -
  let ?s = "bench_sensor\<lparr>offset := Num x\<rparr>"
  let ?b = "bench_board (steady 512)\<lparr>conversions := n\<rparr>"
  have ok: "sampling_ok ?s"
    by (simp add: sampling_ok_def bench_sensor_def)
  have st: "\<forall>k. signal ?b (analog_pin ?s) k = 512"
    by (simp add: bench_board_simps steady_def)
  have "rawToVoltage ?s 512 = Num 2"
    by (rule bench_rawToVoltage) (simp_all add: bench_sensor_def)
  then have "voltageToCelsius ?s (rawToVoltage ?s 512) = Num (2 + x)"
    by (simp add: voltageToCelsius_def bench_sensor_def minus_cfloat_def)
  with readCelsius_steady [OF ok st] show ?thesis
    by (simp add: bench_board_simps bench_sensor_def)
qed

text \<open>
  The bench sensor, whatever its filter state, on a board with a steady signal: 4, 512,
  896 and 1024 counts are \<open>-63/32\<close>, 2, 5 and 6 degrees.
\<close>

lemma bench_voltageToCelsius:
  assumes "reference_voltage s = Num 4" and "resolution s = 1024"
    and "offset_voltage s = Num 1" and "sensitivity s = Num 0.5"
    and "gain s = Num 1" and "offset s = Num 0"
  shows "voltageToCelsius s (rawToVoltage s 4) = Num (- 63 / 32)"
    and "voltageToCelsius s (rawToVoltage s 512) = Num 2"
    and "voltageToCelsius s (rawToVoltage s 896) = Num 5"
    and "voltageToCelsius s (rawToVoltage s 1024) = Num 6"
  using assms
  by (simp_all add: bench_rawToVoltage [OF assms(1) assms(2)] voltageToCelsius_def minus_cfloat_def)

lemma bench_readCelsius:
  assumes sig: "\<forall>k. signal b 0 k = r" and bits: "16 \<le> int_bits b"
    and raw: "0 \<le> r" "r \<le> 1024"
  shows "readCelsius (bench_sensor\<lparr>filtered_temperature := previous\<rparr>) b =
    Some (voltageToCelsius bench_sensor (rawToVoltage bench_sensor r),
          b\<lparr>conversions := conversions b + 10\<rparr>)"
proof -
  let ?s = "bench_sensor\<lparr>filtered_temperature := previous\<rparr>"
  have ok: "sampling_ok ?s"
    by (simp add: sampling_ok_def bench_sensor_def)
  from sig have st: "\<forall>k. signal b (analog_pin ?s) k = r"
    by (simp add: bench_sensor_def)
  from bits have "(2::int) ^ 15 \<le> 2 ^ (int_bits b - 1)"
    by (intro power_increasing) simp_all
  with raw have small: "200 * r < 2 ^ 32" "r < 2 ^ (int_bits b - 1)"
    by simp_all
  have "voltageToCelsius ?s (rawToVoltage ?s r) =
      voltageToCelsius bench_sensor (rawToVoltage bench_sensor r)"
    by (simp add: voltageToCelsius_def rawToVoltage_def)
  with readCelsius_steady [OF ok st raw(1) small] show ?thesis
    by (simp add: bench_sensor_def)
qed

lemma bench_readCelsius_512:
  "readCelsius bench_sensor (bench_board (steady 512)) =
     Some (Num 2, bench_board (steady 512)\<lparr>conversions := 10\<rparr>)"
  using bench_offset_readCelsius [of 0 0] by (simp add: bench_sensor_def bench_board_def)





subsection \<open>Raw acquisition\<close>

text \<open>
  Claim C6. With a sample count in \<open>[1, 200]\<close> and every raw read in \<open>[0, M]\<close>, where
  \<open>M\<close> is the platform's largest raw value, \<open>readRaw\<close> makes exactly \<^verbatim>\<open>avg_sample\<close>
  conversions, one after the other; its 32-bit accumulator holds their exact sum (it does
  not wrap, as long as \<open>200 * M < 2^32\<close>, which every converter of up to 24 bits
  satisfies); it returns the quotient of that sum by \<^verbatim>\<open>avg_sample\<close>, remainder dropped;
  and the result lies in \<open>[0, M]\<close>. \<open>M\<close> fits the platform's \<^verbatim>\<open>int\<close>, the type in which
  \<^verbatim>\<open>analogRead\<close> returns it.
\<close>

theorem readRaw_truncated_mean:
  assumes count: "sampling_ok s"
    and range: "\<forall>k. 0 \<le> signal b (analog_pin s) k \<and> signal b (analog_pin s) k \<le> M"
    and acc: "200 * M < 2 ^ 32"
    and int: "M < 2 ^ (int_bits b - 1)"
  shows "uint (fst (readRaw_loop s 0 0 b)) = acquired s b
       \<and> readRaw s b = Some (acquired s b div uint (avg_sample s),
                             b\<lparr>conversions := conversions b + unat (avg_sample s)\<rparr>)
       \<and> 0 \<le> acquired s b div uint (avg_sample s)
       \<and> acquired s b div uint (avg_sample s) \<le> M"
  using assms by (rule readRaw_exact)

text \<open>
  On the bench, ten conversions of the ramp return \<open>0, 1, \<dots>, 9\<close>: the sum is 45 and
  the result 4, not the rounded mean 5.
\<close>

theorem readRaw_truncated_mean_witness:
  "sampling_ok bench_sensor
   \<and> (\<forall>k. 0 \<le> signal (bench_board ramp) (analog_pin bench_sensor) k
          \<and> signal (bench_board ramp) (analog_pin bench_sensor) k \<le> 1023)
   \<and> 200 * 1023 < (2::int) ^ 32
   \<and> 1023 < (2::int) ^ (int_bits (bench_board ramp) - 1)
   \<and> acquired bench_sensor (bench_board ramp) = 45
   \<and> readRaw bench_sensor (bench_board ramp) = Some (4, bench_board ramp\<lparr>conversions := 10\<rparr>)"
proof -
  have range: "\<forall>k. 0 \<le> signal (bench_board ramp) (analog_pin bench_sensor) k
          \<and> signal (bench_board ramp) (analog_pin bench_sensor) k \<le> 1023"
    by (simp only: bench_board_simps ramp_range simp_thms)
  have acc: "200 * 1023 < (2::int) ^ 32"
    by simp
  have int: "1023 < (2::int) ^ (int_bits (bench_board ramp) - 1)"
    by (simp add: bench_board_simps)
  have sum: "acquired bench_sensor (bench_board ramp) = 45"
    by (simp add: acquired_def bench_count bench_board_simps ramp_def
        lessThan_nat_numeral lessThan_Suc)
  from readRaw_truncated_mean [OF bench_sampling range acc int]
  have "readRaw bench_sensor (bench_board ramp) =
      Some (acquired bench_sensor (bench_board ramp) div uint (avg_sample bench_sensor),
            bench_board ramp\<lparr>conversions := conversions (bench_board ramp)
               + unat (avg_sample bench_sensor)\<rparr>)"
    by (elim conjE)
  then have "readRaw bench_sensor (bench_board ramp) =
      Some (4, bench_board ramp\<lparr>conversions := 10\<rparr>)"
    by (simp add: sum bench_count bench_board_simps)
  with bench_sampling range acc int sum show ?thesis
    by blast
qed

subsection \<open>Voltage conversion\<close>

text \<open>
  Claim C8 as stated: \<open>rawToVoltage raw = raw * referenceVoltage / maxCount\<close> for every raw
  count in \<open>[0, maxCount]\<close>, and in particular \<open>rawToVoltage maxCount = referenceVoltage\<close>.
  After \<open>begin(0, 3.3, 13)\<close> the reference is the float \<open>13841203 / 2^22\<close>; the product
  by 13 is rounded to \<open>11245977 / 2^18\<close>, its quotient by 13 to \<open>6920601 / 2^21\<close>, and that
  is what \<open>rawToVoltage 13\<close> returns: one unit in the last place below the reference.
\<close>

theorem rawToVoltage_full_scale_rounds:
  "reference_voltage
     (fst (begin' 0 (to_float (Num 3.3)) 13 (constructor bench_sensor) (bench_board ramp))) =
     Num (13841203 / 4194304)
   \<and> resolution
       (fst (begin' 0 (to_float (Num 3.3)) 13 (constructor bench_sensor) (bench_board ramp))) = 13
   \<and> rawToVoltage
       (fst (begin' 0 (to_float (Num 3.3)) 13 (constructor bench_sensor) (bench_board ramp))) 13 =
     Num (6920601 / 2097152)
   \<and> rawToVoltage
       (fst (begin' 0 (to_float (Num 3.3)) 13 (constructor bench_sensor) (bench_board ramp))) 13 \<noteq>
     reference_voltage
       (fst (begin' 0 (to_float (Num 3.3)) 13 (constructor bench_sensor) (bench_board ramp)))"
  by (simp add: begin'_def rawToVoltage_def round_eval)

text \<open>
  Claim C8, amended. With a positive \<^verbatim>\<open>resolution\<close> (the spec's \<open>maxCount\<close>) and a finite
  reference voltage \<open>v\<close>, \<open>rawToVoltage raw\<close> is \<open>raw * v / maxCount\<close> as float
  arithmetic computes it: the product rounded to a float, then its quotient by \<open>maxCount\<close>
  rounded to a float. It is 0 at raw count 0. At raw count \<open>maxCount\<close> it is \<open>v\<close> whenever
  \<open>v\<close> is a float and the product \<open>maxCount * v\<close> is one as well, so that nothing is
  rounded. The function returns a value only: it has no state to change.
\<close>

theorem rawToVoltage_rounded:
  assumes "0 < resolution s" and "reference_voltage s = Num v"
  shows "rawToVoltage s raw =
           to_float (to_float (to_float (Num (real_of_int raw)) * Num v)
                     / Num (real (unat (resolution s))))
       \<and> rawToVoltage s 0 = Num 0
       \<and> (to_float (Num v) = Num v \<longrightarrow>
            to_float (Num (real (unat (resolution s)) * v)) = Num (real (unat (resolution s)) * v) \<longrightarrow>
            rawToVoltage s (uint (resolution s)) = Num v)"
proof -
  from assms(1) have nz: "real (unat (resolution s)) \<noteq> 0"
    by (simp add: word_greater_zero_iff unsigned_eq_0_iff)
  have formula: "rawToVoltage s raw =
           to_float (to_float (to_float (Num (real_of_int raw)) * Num v)
                     / Num (real (unat (resolution s))))"
    by (simp only: rawToVoltage_def assms(2))
  from nz have zero: "rawToVoltage s 0 = Num 0"
    by (simp add: rawToVoltage_def assms(2) to_float_zero [simplified])
  have "uint (resolution s) < 2 ^ 16"
    using unsigned_less [of "resolution s", where ?'a = int] by simp
  then have "\<bar>uint (resolution s)\<bar> < 2 ^ 24"
    by simp
  then have count: "to_float (Num (real_of_int (uint (resolution s)))) =
      Num (real_of_int (uint (resolution s)))"
    by (rule to_float_small_int)
  have same: "real_of_int (uint (resolution s)) = real (unat (resolution s))"
    by simp
  have full: "rawToVoltage s (uint (resolution s)) = Num v"
    if "to_float (Num v) = Num v"
      and "to_float (Num (real (unat (resolution s)) * v)) = Num (real (unat (resolution s)) * v)"
  proof -
    have "rawToVoltage s (uint (resolution s)) =
        to_float (to_float (to_float (Num (real_of_int (uint (resolution s)))) * Num v)
                  / Num (real (unat (resolution s))))"
      by (simp only: rawToVoltage_def assms(2))
    also have "\<dots> = to_float (to_float (Num (real (unat (resolution s))) * Num v)
                  / Num (real (unat (resolution s))))"
      using count by (simp only: same)
    also have "\<dots> = to_float (Num (real (unat (resolution s)) * v)
                  / Num (real (unat (resolution s))))"
      using that(2) by simp
    also from nz have "\<dots> = to_float (Num v)"
      by simp
    finally show ?thesis
      using that(1) by simp
  qed
  from formula zero full show ?thesis
    by blast
qed

text \<open>
  On the bench the reference is 4 V and the full scale 1024 counts: 512 counts are 2 V,
  none is 0 V and 1024 are 4 V.
\<close>

theorem rawToVoltage_rounded_witness:
  "0 < resolution bench_sensor \<and> reference_voltage bench_sensor = Num 4
   \<and> to_float (Num 4) = Num 4
   \<and> to_float (Num (real (unat (resolution bench_sensor)) * 4)) =
       Num (real (unat (resolution bench_sensor)) * 4)
   \<and> rawToVoltage bench_sensor 512 = Num 2
   \<and> rawToVoltage bench_sensor 0 = Num 0
   \<and> rawToVoltage bench_sensor 1024 = Num 4"
proof -
  have res: "0 < resolution bench_sensor" and ref: "reference_voltage bench_sensor = Num 4"
    by (simp_all add: bench_sensor_def)
  have count: "uint (resolution bench_sensor) = 1024" "real (unat (resolution bench_sensor)) = 1024"
    by (simp_all add: bench_sensor_def)
  have float: "to_float (Num 4) = Num 4"
    using to_float_small_int [of 4] by simp
  have product: "to_float (Num (real (unat (resolution bench_sensor)) * 4)) =
       Num (real (unat (resolution bench_sensor)) * 4)"
    using to_float_small_int [of 4096] by (simp add: bench_sensor_def)
  have half: "rawToVoltage bench_sensor 512 = Num 2"
    by (rule bench_rawToVoltage) (simp_all add: bench_sensor_def)
  from rawToVoltage_rounded [OF res ref, of 512] float product count
  have "rawToVoltage bench_sensor 0 = Num 0" "rawToVoltage bench_sensor 1024 = Num 4"
    by simp_all
  with res ref float product half show ?thesis
    by blast
qed

subsection \<open>Temperature conversion\<close>


text \<open>
  Claim C9 as stated: \<open>readFahrenheit = readCelsius * 9 / 5 + 32\<close> and
  \<open>readKelvin = readCelsius + 273.15\<close> exactly, on a steady signal. The bench sensor with
  \<open>setOffsetVoltage(1.1)\<close> reads \<open>c = 7549747 / 2^22\<close> degrees (about 1.8) on a steady raw
  count of 512. \<open>readFahrenheit\<close> then returns \<open>9237955 / 2^18\<close>, which is neither
  \<open>c * 9 / 5 + 32\<close>, nor that expression evaluated in \<^verbatim>\<open>float\<close>, nor evaluated in
  \<^verbatim>\<open>double\<close>; \<open>readKelvin\<close> returns \<open>4504781 / 2^14\<close>, which is neither \<open>c + 273.15\<close>, nor
  that sum evaluated in \<^verbatim>\<open>float\<close>, nor evaluated in \<^verbatim>\<open>double\<close>.
\<close>

theorem unit_conversions_inexact:
  "readCelsius (bench_sensor\<lparr>offset_voltage := to_float (Num 1.1)\<rparr>) (bench_board (steady 512)) =
     Some (Num (7549747 / 4194304), bench_board (steady 512)\<lparr>conversions := 10\<rparr>)
   \<and> readFahrenheit (bench_sensor\<lparr>offset_voltage := to_float (Num 1.1)\<rparr>)
         (bench_board (steady 512)\<lparr>conversions := 10\<rparr>) =
       Some (Num (9237955 / 262144), bench_board (steady 512)\<lparr>conversions := 20\<rparr>)
   \<and> readKelvin (bench_sensor\<lparr>offset_voltage := to_float (Num 1.1)\<rparr>)
         (bench_board (steady 512)\<lparr>conversions := 20\<rparr>) =
       Some (Num (4504781 / 16384), bench_board (steady 512)\<lparr>conversions := 30\<rparr>)
   \<and> Num (9237955 / 262144) \<noteq> Num (7549747 / 4194304) * Num 9 / Num 5 + Num 32
   \<and> Num (9237955 / 262144) \<noteq>
       to_float (to_float (to_float (Num (7549747 / 4194304) * Num 9) / Num 5) + Num 32)
   \<and> Num (9237955 / 262144) \<noteq>
       to_double 64 (to_double 64 (to_double 64 (Num (7549747 / 4194304) * Num 9) / Num 5) + Num 32)
   \<and> Num (4504781 / 16384) \<noteq> Num (7549747 / 4194304) + Num 273.15
   \<and> Num (4504781 / 16384) \<noteq> to_float (Num (7549747 / 4194304) + to_float (Num 273.15))
   \<and> Num (4504781 / 16384) \<noteq> to_double 64 (Num (7549747 / 4194304) + to_double 64 (Num 273.15))"
proof -
  let ?s = "bench_sensor\<lparr>offset_voltage := to_float (Num 1.1)\<rparr>"
  let ?c = "Num (7549747 / 4194304)"
  have ok: "sampling_ok ?s"
    by (simp add: sampling_ok_def bench_sensor_def)
  have "rawToVoltage ?s 512 = Num 2"
    by (rule bench_rawToVoltage) (simp_all add: bench_sensor_def)
  then have degrees: "voltageToCelsius ?s (rawToVoltage ?s 512) = ?c"
    by (simp add: voltageToCelsius_def bench_sensor_def minus_cfloat_def round_eval)
  have celsius: "readCelsius ?s (bench_board (steady 512)\<lparr>conversions := n\<rparr>) =
      Some (?c, bench_board (steady 512)\<lparr>conversions := n + 10\<rparr>)" for n
  proof -
    let ?b = "bench_board (steady 512)\<lparr>conversions := n\<rparr>"
    have st: "\<forall>k. signal ?b (analog_pin ?s) k = 512"
      by (simp add: bench_board_simps steady_def)
    from readCelsius_steady [OF ok st] degrees show ?thesis
      by (simp add: bench_board_simps bench_sensor_def)
  qed
  from celsius [of 0] have first: "readCelsius ?s (bench_board (steady 512)) =
      Some (?c, bench_board (steady 512)\<lparr>conversions := 10\<rparr>)"
    by (simp add: bench_board_def)
  have fahrenheit: "to_float (to_double 64 (to_double 64 (to_double 64 (?c * Num 9) / Num 5)
      + Num 32)) = Num (9237955 / 262144)"
    by (simp add: round_eval)
  have kelvin: "to_float (to_double 64 (?c + to_double 64 (Num 273.15))) = Num (4504781 / 16384)"
    by (simp add: round_eval)
  have second: "readFahrenheit ?s (bench_board (steady 512)\<lparr>conversions := 10\<rparr>) =
       Some (Num (9237955 / 262144), bench_board (steady 512)\<lparr>conversions := 20\<rparr>)"
    unfolding readFahrenheit_def celsius using fahrenheit by (simp add: bench_board_simps)
  have third: "readKelvin ?s (bench_board (steady 512)\<lparr>conversions := 20\<rparr>) =
       Some (Num (4504781 / 16384), bench_board (steady 512)\<lparr>conversions := 30\<rparr>)"
    unfolding readKelvin_def celsius using kelvin by (simp add: bench_board_simps)
  have exact: "Num (9237955 / 262144) \<noteq> ?c * Num 9 / Num 5 + Num 32"
    "Num (4504781 / 16384) \<noteq> ?c + Num 273.15"
    by simp_all
  have single: "Num (9237955 / 262144) \<noteq>
       to_float (to_float (to_float (?c * Num 9) / Num 5) + Num 32)"
    "Num (4504781 / 16384) \<noteq> to_float (?c + to_float (Num 273.15))"
    by (simp_all add: round_eval)
  have double: "Num (9237955 / 262144) \<noteq>
       to_double 64 (to_double 64 (to_double 64 (?c * Num 9) / Num 5) + Num 32)"
    "Num (4504781 / 16384) \<noteq> to_double 64 (?c + to_double 64 (Num 273.15))"
    by (simp_all add: round_eval)
  from first second third exact single double show ?thesis
    by blast
qed

text \<open>
  Claim C9, amended. On a steady signal, a \<open>readCelsius\<close> followed by a \<open>readFahrenheit\<close>
  and a \<open>readKelvin\<close> all return, each after its own acquisition. With \<open>c\<close> the Celsius
  reading, \<open>readFahrenheit\<close> returns \<open>c * 9 / 5 + 32\<close> as \<^verbatim>\<open>double\<close> arithmetic computes it
  (the product, the quotient and the sum each rounded to \<^verbatim>\<open>double\<close>), rounded to \<^verbatim>\<open>float\<close>;
  \<open>readKelvin\<close> returns the sum of \<open>c\<close> and the \<^verbatim>\<open>double\<close> nearest to 273.15, rounded to
  \<^verbatim>\<open>double\<close> and then to \<^verbatim>\<open>float\<close>. The Fahrenheit value is \<open>c * 9 / 5 + 32\<close> itself whenever
  none of these steps rounds.
\<close>

theorem unit_conversions_rounded:
  assumes count: "avg_sample s \<noteq> 0" and steady: "\<forall>k. signal b (analog_pin s) k = r"
  shows "\<exists>c. readCelsius s b =
               Some (c, b\<lparr>conversions := conversions b + unat (avg_sample s)\<rparr>)
         \<and> readFahrenheit s (b\<lparr>conversions := conversions b + unat (avg_sample s)\<rparr>) =
               Some (to_float
                       (to_double (double_bits b)
                          (to_double (double_bits b) (to_double (double_bits b) (c * Num 9) / Num 5)
                           + Num 32)),
                     b\<lparr>conversions := conversions b + 2 * unat (avg_sample s)\<rparr>)
         \<and> readKelvin s (b\<lparr>conversions := conversions b + 2 * unat (avg_sample s)\<rparr>) =
               Some (to_float
                       (to_double (double_bits b) (c + to_double (double_bits b) (Num 273.15))),
                     b\<lparr>conversions := conversions b + 3 * unat (avg_sample s)\<rparr>)
         \<and> (\<forall>x. c = Num x \<longrightarrow>
                to_double (double_bits b) (Num (x * 9)) = Num (x * 9) \<longrightarrow>
                to_double (double_bits b) (Num (x * 9 / 5)) = Num (x * 9 / 5) \<longrightarrow>
                to_double (double_bits b) (Num (x * 9 / 5 + 32)) = Num (x * 9 / 5 + 32) \<longrightarrow>
                to_float (Num (x * 9 / 5 + 32)) = Num (x * 9 / 5 + 32) \<longrightarrow>
                readFahrenheit s (b\<lparr>conversions := conversions b + unat (avg_sample s)\<rparr>) =
                  Some (Num (x * 9 / 5 + 32),
                        b\<lparr>conversions := conversions b + 2 * unat (avg_sample s)\<rparr>))"
proof -
  let ?b1 = "b\<lparr>conversions := conversions b + unat (avg_sample s)\<rparr>"
  let ?b2 = "b\<lparr>conversions := conversions b + 2 * unat (avg_sample s)\<rparr>"
  let ?b3 = "b\<lparr>conversions := conversions b + 3 * unat (avg_sample s)\<rparr>"
  define c where "c = fst (the (readCelsius s b))"
  from steady have s1: "\<forall>k. signal ?b1 (analog_pin s) k = r"
    and s2: "\<forall>k. signal ?b2 (analog_pin s) k = r"
    by simp_all
  note c0 = readCelsius_steady_any [OF count steady, simplified]
  note c1 = readCelsius_steady_any [OF count s1, simplified]
  note c2 = readCelsius_steady_any [OF count s2, simplified]
  have celsius: "readCelsius s b = Some (c, ?b1)"
    by (simp add: c_def c0)
  have fahrenheit: "readFahrenheit s ?b1 =
      Some (to_float
              (to_double (double_bits b)
                 (to_double (double_bits b) (to_double (double_bits b) (c * Num 9) / Num 5)
                  + Num 32)), ?b2)"
    by (simp add: readFahrenheit_def c_def c0 c1)
  have kelvin: "readKelvin s ?b2 =
      Some (to_float (to_double (double_bits b) (c + to_double (double_bits b) (Num 273.15))), ?b3)"
    by (simp add: readKelvin_def c_def c0 c2)
  have unrounded: "readFahrenheit s ?b1 = Some (Num (x * 9 / 5 + 32), ?b2)"
    if "c = Num x"
      and "to_double (double_bits b) (Num (x * 9)) = Num (x * 9)"
      and "to_double (double_bits b) (Num (x * 9 / 5)) = Num (x * 9 / 5)"
      and "to_double (double_bits b) (Num (x * 9 / 5 + 32)) = Num (x * 9 / 5 + 32)"
      and "to_float (Num (x * 9 / 5 + 32)) = Num (x * 9 / 5 + 32)"
    for x
  proof -
    have "to_double (double_bits b) (c * Num 9) = Num (x * 9)"
      using that(1,2) by simp
    then have "to_double (double_bits b) (to_double (double_bits b) (c * Num 9) / Num 5) =
        Num (x * 9 / 5)"
      using that(3) by simp
    then have "to_double (double_bits b)
        (to_double (double_bits b) (to_double (double_bits b) (c * Num 9) / Num 5) + Num 32) =
        Num (x * 9 / 5 + 32)"
      using that(4) by simp
    with that(5) show ?thesis
      by (simp only: fahrenheit)
  qed
  from celsius fahrenheit kelvin unrounded show ?thesis
    by blast
qed

text \<open>
  On the bench a steady raw count of 896 is 5 degrees Celsius: 41 degrees Fahrenheit,
  exactly, and \<open>9114419 / 2^15\<close> Kelvin, the float nearest to 278.15.
\<close>

theorem unit_conversions_rounded_witness:
  "avg_sample bench_sensor \<noteq> 0
   \<and> (\<forall>k. signal (bench_board (steady 896)) (analog_pin bench_sensor) k = 896)
   \<and> readCelsius bench_sensor (bench_board (steady 896)) =
       Some (Num 5, bench_board (steady 896)\<lparr>conversions := 10\<rparr>)
   \<and> to_double (double_bits (bench_board (steady 896))) (Num (5 * 9)) = Num (5 * 9)
   \<and> to_double (double_bits (bench_board (steady 896))) (Num (5 * 9 / 5)) = Num (5 * 9 / 5)
   \<and> to_double (double_bits (bench_board (steady 896))) (Num (5 * 9 / 5 + 32)) =
       Num (5 * 9 / 5 + 32)
   \<and> to_float (Num (5 * 9 / 5 + 32)) = Num (5 * 9 / 5 + 32)
   \<and> readFahrenheit bench_sensor (bench_board (steady 896)\<lparr>conversions := 10\<rparr>) =
       Some (Num 41, bench_board (steady 896)\<lparr>conversions := 20\<rparr>)
   \<and> readKelvin bench_sensor (bench_board (steady 896)\<lparr>conversions := 20\<rparr>) =
       Some (Num (9114419 / 32768), bench_board (steady 896)\<lparr>conversions := 30\<rparr>)
   \<and> to_float (Num 278.15) = Num (9114419 / 32768)"
proof -
  let ?b = "bench_board (steady 896)"
  have reading: "readCelsius bench_sensor ?b = Some (Num 5, ?b\<lparr>conversions := 10\<rparr>)"
  proof -
    have "voltageToCelsius bench_sensor (rawToVoltage bench_sensor 896) = Num 5"
      by (rule bench_voltageToCelsius) (simp_all add: bench_sensor_def)
    moreover have "bench_sensor\<lparr>filtered_temperature := NaN\<rparr> = bench_sensor"
      by (simp add: bench_sensor_def)
    ultimately show ?thesis
      using bench_readCelsius [of ?b 896 NaN] by (simp add: bench_board_simps steady_def)
  qed
  have doubles: "to_double (double_bits ?b) (Num (5 * 9)) = Num (5 * 9)"
    "to_double (double_bits ?b) (Num (5 * 9 / 5)) = Num (5 * 9 / 5)"
    "to_double (double_bits ?b) (Num (5 * 9 / 5 + 32)) = Num (5 * 9 / 5 + 32)"
    using binary64_small_int [of 45] binary64_small_int [of 9] binary64_small_int [of 41]
    by (simp_all add: bench_board_simps)
  have float: "to_float (Num (5 * 9 / 5 + 32)) = Num (5 * 9 / 5 + 32)"
    using to_float_small_int [of 41] by simp
  have sum: "to_float (to_double 64 (Num 5 + to_double 64 (Num 273.15))) = Num (9114419 / 32768)"
    by (simp add: round_eval)
  have nearest: "to_float (Num 278.15) = Num (9114419 / 32768)"
    by (simp add: round_eval)
  from unit_conversions_rounded [OF bench_nonzero bench_steady, of 896]
  obtain c where c:
    "readCelsius bench_sensor ?b = Some (c, ?b\<lparr>conversions := 10\<rparr>)"
    "readKelvin bench_sensor (?b\<lparr>conversions := 20\<rparr>) =
       Some (to_float (to_double 64 (c + to_double 64 (Num 273.15))), ?b\<lparr>conversions := 30\<rparr>)"
    "\<forall>x. c = Num x \<longrightarrow>
        to_double 64 (Num (x * 9)) = Num (x * 9) \<longrightarrow>
        to_double 64 (Num (x * 9 / 5)) = Num (x * 9 / 5) \<longrightarrow>
        to_double 64 (Num (x * 9 / 5 + 32)) = Num (x * 9 / 5 + 32) \<longrightarrow>
        to_float (Num (x * 9 / 5 + 32)) = Num (x * 9 / 5 + 32) \<longrightarrow>
        readFahrenheit bench_sensor (?b\<lparr>conversions := 10\<rparr>) =
          Some (Num (x * 9 / 5 + 32), ?b\<lparr>conversions := 20\<rparr>)"
    unfolding bench_count bench_board_simps by auto
  from c(1) reading have five: "c = Num 5"
    by simp
  from c(3) [rule_format, OF five] doubles float
  have fahrenheit: "readFahrenheit bench_sensor (?b\<lparr>conversions := 10\<rparr>) =
      Some (Num 41, ?b\<lparr>conversions := 20\<rparr>)"
    by (simp add: bench_board_simps)
  from c(2) five sum have kelvin: "readKelvin bench_sensor (?b\<lparr>conversions := 20\<rparr>) =
      Some (Num (9114419 / 32768), ?b\<lparr>conversions := 30\<rparr>)"
    by simp
  from bench_nonzero bench_steady reading doubles float fahrenheit kelvin nearest show ?thesis
    by blast
qed

subsection \<open>Configuration\<close>

text \<open>
  Claim C5. For every argument \<open>n\<close> (a \<^verbatim>\<open>uint8_t\<close>), \<open>setSampling n\<close> changes the sample
  count only, and stores 1 when \<open>n\<close> is 0, 200 when \<open>n\<close> exceeds 200 and \<open>n\<close> otherwise,
  that is \<open>n\<close> clamped to \<open>[1, 200]\<close>; \<open>getSampling\<close> then returns the stored count.
  The arguments 0, 250 and 50 give 1, 200 and 50. The setter has no error result.
\<close>

theorem setSampling_clamps:
  "setSampling n s = s\<lparr>avg_sample := (if n = 0 then 1 else if 200 < n then 200 else n)\<rparr>
   \<and> unat (getSampling (setSampling n s)) = max 1 (min 200 (unat n))
   \<and> getSampling (setSampling 0 s) = 1
   \<and> getSampling (setSampling 250 s) = 200
   \<and> getSampling (setSampling 50 s) = 50"
proof -
  have stored: "setSampling n s =
      s\<lparr>avg_sample := (if n = 0 then 1 else if 200 < n then 200 else n)\<rparr>"
    by (simp add: setSampling_def)
  have pos: "0 < unat n" if "n \<noteq> 0"
    using that by (simp add: unat_gt_0)
  have got: "getSampling (setSampling n s) = (if n = 0 then 1 else if 200 < n then 200 else n)"
    by (simp add: setSampling_def getSampling_def)
  have "unat (if n = 0 then 1 else if 200 < n then 200 else n) = max 1 (min 200 (unat n))"
    using pos by (auto simp add: word_less_nat_alt max_def min_def)
  then have clamp: "unat (getSampling (setSampling n s)) = max 1 (min 200 (unat n))"
    by (simp only: got)
  have "getSampling (setSampling 0 s) = 1" "getSampling (setSampling 250 s) = 200"
    "getSampling (setSampling 50 s) = 50"
    by (simp_all add: setSampling_def getSampling_def)
  with stored clamp show ?thesis
    by blast
qed

text \<open>
  Claim C10. \<open>begin\<close> stores its three arguments and resets the calibration offset, the
  gain, the filter state and the sample count, and nothing else: the offset voltage and
  the sensitivity are as before. On a freshly constructed object they are therefore still
  the header's defaults, 1.25 V and 0.005 V per degree, and values set before a
  (re-)initialization survive it.
\<close>

theorem begin_keeps_transfer_function:
  "fst (begin' analogPin vRef adcResolution s b) =
     s\<lparr>analog_pin := analogPin, reference_voltage := vRef, resolution := adcResolution,
       offset := Num 0, gain := Num 1, filtered_temperature := NaN, avg_sample := 10\<rparr>
   \<and> offset_voltage (fst (begin' analogPin vRef adcResolution s b)) = offset_voltage s
   \<and> sensitivity (fst (begin' analogPin vRef adcResolution s b)) = sensitivity s
   \<and> offset_voltage (fst (begin' analogPin vRef adcResolution (constructor mem) b)) = Num 1.25
   \<and> sensitivity (fst (begin' analogPin vRef adcResolution (constructor mem) b)) = Num 0.005
   \<and> offset_voltage (fst (begin' analogPin vRef adcResolution (setOffsetVoltage x s) b)) = x
   \<and> sensitivity (fst (begin' analogPin vRef adcResolution (setSensitivity y s) b)) = y"
  by (simp add: begin'_def constructor_def setOffsetVoltage_def setSensitivity_def)

subsection \<open>Diagnostics\<close>



subsection \<open>Filtering\<close>

text \<open>
  Claim C4 as stated: when the filter state is unset, \<open>readFilteredTemperatureC\<close> returns
  exactly the current reading. The code sets the state to the reading and then still
  computes \<open>alpha * current + (1 - alpha) * state\<close>, whose rounded value need not be the
  reading. On the bench a steady raw count of 1024 is 6 degrees, and the first call with
  \<open>alpha = 7.3\<close> returns \<open>3145729 / 2^19\<close>. On a board whose \<^verbatim>\<open>double\<close> is 32 bits wide, a
  steady raw count of 4 is \<open>-63/32\<close> degrees, and the first call with the default
  \<open>alpha = 0.1\<close> returns \<open>-16515071 / 2^23\<close>.
\<close>

theorem first_filtered_reading_rounds:
  "isnan (filtered_temperature bench_sensor)
   \<and> readCelsius bench_sensor (bench_board (steady 1024)) =
       Some (Num 6, bench_board (steady 1024)\<lparr>conversions := 10\<rparr>)
   \<and> readFilteredTemperatureC (to_float (Num 7.3)) bench_sensor (bench_board (steady 1024)) =
       Some (Num (3145729 / 524288),
             bench_sensor\<lparr>filtered_temperature := Num (3145729 / 524288)\<rparr>,
             bench_board (steady 1024)\<lparr>conversions := 10\<rparr>)
   \<and> Num (3145729 / 524288) \<noteq> Num 6
   \<and> readCelsius bench_sensor (avr_board (steady 4)) =
       Some (Num (- 63 / 32), avr_board (steady 4)\<lparr>conversions := 10\<rparr>)
   \<and> readFilteredTemperatureC (to_float (Num 0.1)) bench_sensor (avr_board (steady 4)) =
       Some (Num (- 16515071 / 8388608),
             bench_sensor\<lparr>filtered_temperature := Num (- 16515071 / 8388608)\<rparr>,
             avr_board (steady 4)\<lparr>conversions := 10\<rparr>)
   \<and> Num (- 16515071 / 8388608) \<noteq> Num (- 63 / 32)"
proof -
  have unset: "isnan (filtered_temperature bench_sensor)"
    by (simp add: bench_sensor_def)
  have same: "bench_sensor\<lparr>filtered_temperature := NaN\<rparr> = bench_sensor"
    by (simp add: bench_sensor_def)
  have degrees: "voltageToCelsius bench_sensor (rawToVoltage bench_sensor 1024) = Num 6"
    "voltageToCelsius bench_sensor (rawToVoltage bench_sensor 4) = Num (- 63 / 32)"
    by (rule bench_voltageToCelsius; simp add: bench_sensor_def)+
  have hot: "readCelsius bench_sensor (bench_board (steady 1024)) =
       Some (Num 6, bench_board (steady 1024)\<lparr>conversions := 10\<rparr>)"
    using bench_readCelsius [of "bench_board (steady 1024)" 1024 NaN]
    by (simp add: same degrees bench_board_simps steady_def)
  have cold: "readCelsius bench_sensor (avr_board (steady 4)) =
       Some (Num (- 63 / 32), avr_board (steady 4)\<lparr>conversions := 10\<rparr>)"
    using bench_readCelsius [of "avr_board (steady 4)" 4 NaN]
    by (simp add: same degrees avr_board_simps steady_def)
  have wide: "to_float (to_double 64 (to_float (to_float (Num 7.3) * Num 6)
      + to_double 64 (to_double 64 (Num 1 - to_float (Num 7.3)) * Num 6))) =
      Num (3145729 / 524288)"
  proof -
    have "to_float (Num 7.3) = Num (7654605 / 1048576)"
      and "to_float (Num (7654605 / 1048576) * Num 6) = Num (2870477 / 65536)"
      and "to_double 64 (Num 1 - Num (7654605 / 1048576)) = Num (- 6606029 / 1048576)"
      and "to_double 64 (Num (- 6606029 / 1048576) * Num 6) = Num (- 19818087 / 524288)"
      and "to_double 64 (Num (2870477 / 65536) + Num (- 19818087 / 524288)) =
        Num (3145729 / 524288)"
      and "to_float (Num (3145729 / 524288)) = Num (3145729 / 524288)"
      by (simp_all add: minus_cfloat_def round_eval)
    then show ?thesis
      by (simp only:)
  qed
  have narrow: "to_float (to_double 32 (to_float (to_float (Num 0.1) * Num (- 63 / 32))
      + to_double 32 (to_double 32 (Num 1 - to_float (Num 0.1)) * Num (- 63 / 32)))) =
      Num (- 16515071 / 8388608)"
  proof -
    have "to_float (Num 0.1) = Num (13421773 / 134217728)"
      and "to_float (Num (13421773 / 134217728) * Num (- 63 / 32)) = Num (- 6606029 / 33554432)"
      and "to_double 32 (Num 1 - Num (13421773 / 134217728)) = Num (7549747 / 8388608)"
      and "to_double 32 (Num (7549747 / 8388608) * Num (- 63 / 32)) = Num (- 3715891 / 2097152)"
      and "to_double 32 (Num (- 6606029 / 33554432) + Num (- 3715891 / 2097152)) =
        Num (- 16515071 / 8388608)"
      and "to_float (Num (- 16515071 / 8388608)) = Num (- 16515071 / 8388608)"
      by (simp_all add: minus_cfloat_def round_eval)
    then show ?thesis
      by (simp only:)
  qed
  have first: "readFilteredTemperatureC (to_float (Num 7.3)) bench_sensor
      (bench_board (steady 1024)) =
       Some (Num (3145729 / 524288),
             bench_sensor\<lparr>filtered_temperature := Num (3145729 / 524288)\<rparr>,
             bench_board (steady 1024)\<lparr>conversions := 10\<rparr>)"
    unfolding readFilteredTemperatureC_def hot
    using unset wide by (simp add: bench_board_simps del: to_float.simps to_double.simps)
  have second: "readFilteredTemperatureC (to_float (Num 0.1)) bench_sensor
      (avr_board (steady 4)) =
       Some (Num (- 16515071 / 8388608),
             bench_sensor\<lparr>filtered_temperature := Num (- 16515071 / 8388608)\<rparr>,
             avr_board (steady 4)\<lparr>conversions := 10\<rparr>)"
    unfolding readFilteredTemperatureC_def cold
    using unset narrow by (simp add: avr_board_simps del: to_float.simps to_double.simps)
  have "Num (3145729 / 524288) \<noteq> Num 6" "Num (- 16515071 / 8388608) \<noteq> Num (- 63 / 32)"
    by simp_all
  with unset hot cold first second show ?thesis
    by blast
qed

text \<open>
  Claim C4, amended. With a non-zero sample count, \<open>readFilteredTemperatureC alpha\<close>
  acquires a reading \<open>current\<close> and returns. With \<open>F\<close> the reading itself when the filter
  state is unset (not-a-number) and the filter state otherwise, the call returns
  \<open>alpha * current + (1 - alpha) * F\<close> as the code computes it: the first product rounded
  to \<^verbatim>\<open>float\<close>, the difference, the second product and the sum rounded to \<^verbatim>\<open>double\<close>, the
  result rounded to \<^verbatim>\<open>float\<close>. That value becomes the new filter state. When the filter
  state is unset and none of these steps rounds, the value is the reading itself.
\<close>

theorem readFilteredTemperatureC_rounded:
  assumes "avg_sample s \<noteq> 0"
  shows "\<exists>current b'. readCelsius s b = Some (current, b')
       \<and> readFilteredTemperatureC alpha s b =
           Some (to_float
                   (to_double (double_bits b)
                      (to_float (alpha * current)
                       + to_double (double_bits b)
                           (to_double (double_bits b) (Num 1 - alpha)
                            * (if isnan (filtered_temperature s) then current
                               else filtered_temperature s)))),
                 s\<lparr>filtered_temperature :=
                     to_float
                       (to_double (double_bits b)
                          (to_float (alpha * current)
                           + to_double (double_bits b)
                               (to_double (double_bits b) (Num 1 - alpha)
                                * (if isnan (filtered_temperature s) then current
                                   else filtered_temperature s))))\<rparr>,
                 b')
       \<and> (isnan (filtered_temperature s) \<longrightarrow> current = Num c \<longrightarrow> alpha = Num a \<longrightarrow>
            to_float (Num (a * c)) = Num (a * c) \<longrightarrow>
            to_double (double_bits b) (Num (1 - a)) = Num (1 - a) \<longrightarrow>
            to_double (double_bits b) (Num ((1 - a) * c)) = Num ((1 - a) * c) \<longrightarrow>
            to_double (double_bits b) (Num c) = Num c \<longrightarrow>
            to_float (Num c) = Num c \<longrightarrow>
            readFilteredTemperatureC alpha s b =
              Some (Num c, s\<lparr>filtered_temperature := Num c\<rparr>, b'))"
proof -
  from readCelsius_returns [OF assms] obtain current b'
    where read: "readCelsius s b = Some (current, b')"
    by blast
  have result: "readFilteredTemperatureC alpha s b =
           Some (to_float
                   (to_double (double_bits b)
                      (to_float (alpha * current)
                       + to_double (double_bits b)
                           (to_double (double_bits b) (Num 1 - alpha)
                            * (if isnan (filtered_temperature s) then current
                               else filtered_temperature s)))),
                 s\<lparr>filtered_temperature :=
                     to_float
                       (to_double (double_bits b)
                          (to_float (alpha * current)
                           + to_double (double_bits b)
                               (to_double (double_bits b) (Num 1 - alpha)
                                * (if isnan (filtered_temperature s) then current
                                   else filtered_temperature s))))\<rparr>,
                 b')"
    by (simp add: readFilteredTemperatureC_def read Let_def)
  have unrounded: "readFilteredTemperatureC alpha s b =
      Some (Num c, s\<lparr>filtered_temperature := Num c\<rparr>, b')"
    if unset: "isnan (filtered_temperature s)" and "current = Num c" and "alpha = Num a"
      and product: "to_float (Num (a * c)) = Num (a * c)"
      and rest: "to_double (double_bits b) (Num (1 - a)) = Num (1 - a)"
      and share: "to_double (double_bits b) (Num ((1 - a) * c)) = Num ((1 - a) * c)"
      and wide: "to_double (double_bits b) (Num c) = Num c"
      and narrow: "to_float (Num c) = Num c"
  proof -
    have whole: "a * c + (1 - a) * c = c"
      by (simp add: algebra_simps)
    have "to_float (alpha * current) = Num (a * c)"
      using that(2,3) product by simp
    moreover have "to_double (double_bits b) (Num 1 - alpha) = Num (1 - a)"
      using that(3) rest by (simp add: minus_cfloat_def)
    then have "to_double (double_bits b) (to_double (double_bits b) (Num 1 - alpha) * current) =
        Num ((1 - a) * c)"
      using that(2) share by simp
    ultimately have "to_float
       (to_double (double_bits b)
          (to_float (alpha * current)
           + to_double (double_bits b)
               (to_double (double_bits b) (Num 1 - alpha) * current))) = Num c"
      using wide narrow by (simp add: whole)
    with unset show ?thesis
      by (simp only: result if_True)
  qed
  from read result unrounded show ?thesis
    by blast
qed

text \<open>
  On the bench with \<open>alpha = 0.5\<close> nothing is rounded: the first call reads 2 degrees and
  returns 2; a second call that reads 6 degrees returns \<open>0.5 * 6 + 0.5 * 2 = 4\<close>.
\<close>

theorem readFilteredTemperatureC_rounded_witness:
  "avg_sample bench_sensor \<noteq> 0
   \<and> isnan (filtered_temperature bench_sensor)
   \<and> readCelsius bench_sensor (bench_board (steady 512)) =
       Some (Num 2, bench_board (steady 512)\<lparr>conversions := 10\<rparr>)
   \<and> to_float (Num (0.5 * 2)) = Num (0.5 * 2)
   \<and> to_double (double_bits (bench_board (steady 512))) (Num (1 - 0.5)) = Num (1 - 0.5)
   \<and> to_double (double_bits (bench_board (steady 512))) (Num ((1 - 0.5) * 2)) =
       Num ((1 - 0.5) * 2)
   \<and> to_double (double_bits (bench_board (steady 512))) (Num 2) = Num 2
   \<and> to_float (Num 2) = Num 2
   \<and> readFilteredTemperatureC (Num 0.5) bench_sensor (bench_board (steady 512)) =
       Some (Num 2, bench_sensor\<lparr>filtered_temperature := Num 2\<rparr>,
             bench_board (steady 512)\<lparr>conversions := 10\<rparr>)
   \<and> avg_sample (bench_sensor\<lparr>filtered_temperature := Num 2\<rparr>) \<noteq> 0
   \<and> \<not> isnan (filtered_temperature (bench_sensor\<lparr>filtered_temperature := Num 2\<rparr>))
   \<and> readCelsius (bench_sensor\<lparr>filtered_temperature := Num 2\<rparr>) (bench_board (steady 1024)) =
       Some (Num 6, bench_board (steady 1024)\<lparr>conversions := 10\<rparr>)
   \<and> readFilteredTemperatureC (Num 0.5) (bench_sensor\<lparr>filtered_temperature := Num 2\<rparr>)
         (bench_board (steady 1024)) =
       Some (Num 4, bench_sensor\<lparr>filtered_temperature := Num 4\<rparr>,
             bench_board (steady 1024)\<lparr>conversions := 10\<rparr>)"
proof -
  let ?b = "bench_board (steady 512)"
  let ?s = "bench_sensor\<lparr>filtered_temperature := Num 2\<rparr>"
  have unset: "isnan (filtered_temperature bench_sensor)"
    by (simp add: bench_sensor_def)
  have set: "\<not> isnan (filtered_temperature ?s)"
    by simp
  have nz: "avg_sample ?s \<noteq> 0"
    by (simp add: bench_count)
  have product: "to_float (Num (0.5 * 2)) = Num (0.5 * 2)"
    using to_float_small_int [of 1] by simp
  have rest: "to_double (double_bits ?b) (Num (1 - 0.5)) = Num (1 - 0.5)"
    by (simp add: bench_board_simps round_eval)
  have share: "to_double (double_bits ?b) (Num ((1 - 0.5) * 2)) = Num ((1 - 0.5) * 2)"
    using binary64_small_int [of 1] by (simp add: bench_board_simps)
  have wide: "to_double (double_bits ?b) (Num 2) = Num 2"
    using binary64_small_int [of 2] by (simp add: bench_board_simps)
  have narrow: "to_float (Num 2) = Num 2"
    using to_float_small_int [of 2] by simp
  have six: "readCelsius ?s (bench_board (steady 1024)) =
       Some (Num 6, bench_board (steady 1024)\<lparr>conversions := 10\<rparr>)"
  proof -
    have "voltageToCelsius bench_sensor (rawToVoltage bench_sensor 1024) = Num 6"
      by (rule bench_voltageToCelsius) (simp_all add: bench_sensor_def)
    then show ?thesis
      using bench_readCelsius [of "bench_board (steady 1024)" 1024 "Num 2"]
      by (simp add: bench_board_simps steady_def)
  qed
  have first: "readFilteredTemperatureC (Num 0.5) bench_sensor ?b =
       Some (Num 2, bench_sensor\<lparr>filtered_temperature := Num 2\<rparr>, ?b\<lparr>conversions := 10\<rparr>)"
  proof -
    from readFilteredTemperatureC_rounded [OF bench_nonzero, of ?b "Num 0.5" 2 "0.5"]
    obtain current b' where read: "readCelsius bench_sensor ?b = Some (current, b')"
      and exact: "isnan (filtered_temperature bench_sensor) \<longrightarrow> current = Num 2 \<longrightarrow>
            Num 0.5 = Num 0.5 \<longrightarrow>
            to_float (Num (0.5 * 2)) = Num (0.5 * 2) \<longrightarrow>
            to_double (double_bits ?b) (Num (1 - 0.5)) = Num (1 - 0.5) \<longrightarrow>
            to_double (double_bits ?b) (Num ((1 - 0.5) * 2)) = Num ((1 - 0.5) * 2) \<longrightarrow>
            to_double (double_bits ?b) (Num 2) = Num 2 \<longrightarrow>
            to_float (Num 2) = Num 2 \<longrightarrow>
            readFilteredTemperatureC (Num 0.5) bench_sensor ?b =
              Some (Num 2, bench_sensor\<lparr>filtered_temperature := Num 2\<rparr>, b')"
      by blast
    from read bench_readCelsius_512 have "current = Num 2" and "b' = ?b\<lparr>conversions := 10\<rparr>"
      by (simp_all only: option.inject prod.inject)
    with exact unset product rest share wide narrow show ?thesis
      by blast
  qed
  have mean: "to_float (to_double 64 (to_float (Num 0.5 * Num 6)
      + to_double 64 (to_double 64 (Num 1 - Num 0.5) * Num 2))) = Num 4"
    by (simp add: minus_cfloat_def round_eval)
  have second: "readFilteredTemperatureC (Num 0.5) ?s (bench_board (steady 1024)) =
       Some (Num 4, bench_sensor\<lparr>filtered_temperature := Num 4\<rparr>,
             bench_board (steady 1024)\<lparr>conversions := 10\<rparr>)"
  proof -
    let ?h = "bench_board (steady 1024)"
    from readFilteredTemperatureC_rounded [OF nz, of ?h "Num 0.5"]
    obtain current b' where read: "readCelsius ?s ?h = Some (current, b')"
      and result: "readFilteredTemperatureC (Num 0.5) ?s ?h =
           Some (to_float
                   (to_double (double_bits ?h)
                      (to_float (Num 0.5 * current)
                       + to_double (double_bits ?h)
                           (to_double (double_bits ?h) (Num 1 - Num 0.5)
                            * (if isnan (filtered_temperature ?s) then current
                               else filtered_temperature ?s)))),
                 ?s\<lparr>filtered_temperature :=
                     to_float
                       (to_double (double_bits ?h)
                          (to_float (Num 0.5 * current)
                           + to_double (double_bits ?h)
                               (to_double (double_bits ?h) (Num 1 - Num 0.5)
                                * (if isnan (filtered_temperature ?s) then current
                                   else filtered_temperature ?s))))\<rparr>,
                 b')"
      by blast
    from read six have "current = Num 6" and "b' = ?h\<lparr>conversions := 10\<rparr>"
      by (simp_all only: option.inject prod.inject)
    with result mean show ?thesis
      by (simp add: bench_board_simps del: to_float.simps to_double.simps)
  qed
  from bench_nonzero unset bench_readCelsius_512 product rest share wide narrow first nz set six
    second
  show ?thesis
    by blast
qed

subsection \<open>Calibration\<close>

text \<open>
  \<open>calibrate\<close> measures with the calibration offset that is already in force, and then
  overwrites that offset with \<open>actualTempC - measured\<close>. On an unchanged signal the next
  reading is therefore \<open>actualTempC\<close> minus the previous offset: the target is met when
  the previous offset was 0, as it is after \<open>begin\<close>, and missed by the previous offset
  otherwise.
\<close>

lemma calibrate_then_readCelsius:
  assumes count: "avg_sample s \<noteq> 0" and steady: "\<forall>k. signal b (analog_pin s) k = r"
    and previous: "offset s = Num previous"
    and measured: "readCelsius s b = Some (Num m, b1)"
  shows "\<exists>s' b2. calibrate (Num actual) s b = Some (s', b1)
             \<and> readCelsius s' b1 = Some (Num (actual - previous), b2)"
proof -
  let ?raw = "to_int (int_bits b) (word_of_int (uint (avg_sample s) * r) div ucast (avg_sample s))"
  let ?s' = "s\<lparr>offset := Num actual - Num m\<rparr>"
  from measured readCelsius_steady_any [OF count steady]
  have m: "voltageToCelsius s (rawToVoltage s ?raw) = Num m"
    and b1: "b1 = b\<lparr>conversions := conversions b + unat (avg_sample s)\<rparr>"
    by simp_all
  from m previous
  have base: "(rawToVoltage s ?raw - offset_voltage s) / sensitivity s * gain s = Num (m - previous)"
    by (simp add: voltageToCelsius_def cfloat_sum_Num)
  have cal: "calibrate (Num actual) s b = Some (?s', b1)"
    by (simp add: calibrate_def measured)
  have count': "avg_sample ?s' \<noteq> 0" and steady': "\<forall>k. signal b1 (analog_pin ?s') k = r"
    using count steady by (simp_all add: b1)
  have "rawToVoltage ?s' ?raw = rawToVoltage s ?raw"
    by (simp add: rawToVoltage_def)
  then have "voltageToCelsius ?s' (rawToVoltage ?s' ?raw) = Num (actual - previous)"
    using base by (simp add: voltageToCelsius_def minus_cfloat_def)
  with readCelsius_steady_any [OF count' steady']
  have "readCelsius ?s' b1 = Some (Num (actual - previous),
           b1\<lparr>conversions := conversions b1 + unat (avg_sample ?s')\<rparr>)"
    by (simp add: b1)
  with cal show ?thesis
    by blast
qed

text \<open>
  Claim C1 asks that, from any prior calibration offset, a \<open>readCelsius\<close> after
  \<open>calibrate actualTempC\<close> on an unchanged signal returns \<open>actualTempC\<close>. The bench sensor
  reads 2 degrees on its steady signal. A first \<open>calibrate 10\<close> sets the offset to 8 and
  the sensor reads 10. A second \<open>calibrate 10\<close> on the same signal measures 10, sets the
  offset to \<open>10 - 10 = 0\<close>, and the sensor reads 2 again, not 10.
\<close>

theorem calibrate_twice_misses_target:
  "calibrate (Num 10) bench_sensor (bench_board (steady 512)) =
     Some (bench_sensor\<lparr>offset := Num 8\<rparr>, bench_board (steady 512)\<lparr>conversions := 10\<rparr>)
   \<and> readCelsius (bench_sensor\<lparr>offset := Num 8\<rparr>)
         (bench_board (steady 512)\<lparr>conversions := 10\<rparr>) =
     Some (Num 10, bench_board (steady 512)\<lparr>conversions := 20\<rparr>)
   \<and> calibrate (Num 10) (bench_sensor\<lparr>offset := Num 8\<rparr>)
         (bench_board (steady 512)\<lparr>conversions := 20\<rparr>) =
     Some (bench_sensor\<lparr>offset := Num 0\<rparr>, bench_board (steady 512)\<lparr>conversions := 30\<rparr>)
   \<and> readCelsius (bench_sensor\<lparr>offset := Num 0\<rparr>)
         (bench_board (steady 512)\<lparr>conversions := 30\<rparr>) =
     Some (Num 2, bench_board (steady 512)\<lparr>conversions := 40\<rparr>)"
proof -
  have "calibrate (Num 10) bench_sensor (bench_board (steady 512)) =
     Some (bench_sensor\<lparr>offset := Num 8\<rparr>, bench_board (steady 512)\<lparr>conversions := 10\<rparr>)"
    by (simp add: calibrate_def bench_readCelsius_512 minus_cfloat_def)
  moreover have "calibrate (Num 10) (bench_sensor\<lparr>offset := Num 8\<rparr>)
       (bench_board (steady 512)\<lparr>conversions := 20\<rparr>) =
     Some (bench_sensor\<lparr>offset := Num 0\<rparr>, bench_board (steady 512)\<lparr>conversions := 30\<rparr>)"
    by (simp add: calibrate_def bench_offset_readCelsius minus_cfloat_def)
  moreover have "readCelsius (bench_sensor\<lparr>offset := Num 8\<rparr>)
       (bench_board (steady 512)\<lparr>conversions := 10\<rparr>) =
     Some (Num 10, bench_board (steady 512)\<lparr>conversions := 20\<rparr>)"
    using bench_offset_readCelsius [of 8 10] by simp
  moreover have "readCelsius (bench_sensor\<lparr>offset := Num 0\<rparr>)
       (bench_board (steady 512)\<lparr>conversions := 30\<rparr>) =
     Some (Num 2, bench_board (steady 512)\<lparr>conversions := 40\<rparr>)"
    using bench_offset_readCelsius [of 0 30] by simp
  ultimately show ?thesis
    by blast
qed

subsection \<open>State invariants\<close>

lemma sampling_ok_nonzero: "sampling_ok s \<Longrightarrow> avg_sample s \<noteq> 0"
  by (auto simp add: sampling_ok_def)

lemma sampling_ok_setSampling: "sampling_ok (setSampling n s)"
proof -
  have "1 \<le> n" if "n \<noteq> 0"
    using that by (simp add: word_le_nat_alt unat_gt_0 Suc_le_eq)
  then show ?thesis
    by (auto simp add: sampling_ok_def setSampling_def)
qed

lemma sampling_ok_begin: "sampling_ok (fst (begin' analogPin vRef adcResolution s b))"
  by (simp add: sampling_ok_def begin'_def)

lemma sampling_ok_constructor: "sampling_ok (constructor mem)"
  by (simp add: sampling_ok_def constructor_def)

text \<open>
  Every call returns when the sample count is valid, and keeps it valid. It leaves in
  \<^verbatim>\<open>resolution\<close> and \<^verbatim>\<open>sensitivity\<close> what \<open>stored_resolution\<close> and \<open>stored_sensitivity\<close>
  say: its own argument when it is one of the three calls that write the field, and what
  was there otherwise. From valid divisors, the divisors after the call are therefore
  valid exactly when the call did not store an invalid one.
\<close>

lemma exec_preserves:
  assumes ok: "sampling_ok s"
  shows "\<exists>s' b'. exec c s b = Some (s', b') \<and> sampling_ok s'
           \<and> resolution s' = stored_resolution c (resolution s)
           \<and> sensitivity s' = stored_sensitivity c (sensitivity s)
           \<and> (divisors_ok s \<longrightarrow> (divisors_ok s' \<longleftrightarrow> stores_valid_divisor c))"
proof -
  from ok have nz: "avg_sample s \<noteq> 0"
    by (rule sampling_ok_nonzero)
  note raw = readRaw_sum [OF nz]
  show ?thesis
  proof (cases c)
    case (Do_begin analogPin vRef adcResolution)
    then show ?thesis
      by (auto simp add: begin'_def sampling_ok_def divisors_ok_def)
  next
    case (Do_setVref v)
    with ok show ?thesis
      by (simp add: setVref_def sampling_ok_def divisors_ok_def)
  next
    case (Do_setADCResolution r)
    with ok show ?thesis
      by (simp add: setADCResolution_def sampling_ok_def divisors_ok_def)
  next
    case (Do_setOffsetVoltage v)
    with ok show ?thesis
      by (simp add: setOffsetVoltage_def sampling_ok_def divisors_ok_def)
  next
    case (Do_setSensitivity v)
    with ok show ?thesis
      by (simp add: setSensitivity_def sampling_ok_def divisors_ok_def)
  next
    case (Do_setSampling n)
    have "divisors_ok (setSampling n s) = divisors_ok s"
      and "resolution (setSampling n s) = resolution s"
      and "sensitivity (setSampling n s) = sensitivity s"
      by (simp_all add: setSampling_def divisors_ok_def Let_def)
    with Do_setSampling show ?thesis
      by (simp add: sampling_ok_setSampling)
  next
    case Do_getSampling
    with ok show ?thesis by simp
  next
    case Do_readRaw
    with ok show ?thesis by (simp add: raw)
  next
    case (Do_rawToVoltage r)
    with ok show ?thesis by simp
  next
    case Do_readVoltage
    with ok show ?thesis by (simp add: readVoltage_def raw)
  next
    case (Do_voltageToCelsius v)
    with ok show ?thesis by simp
  next
    case Do_readCelsius
    with ok show ?thesis by (simp add: readCelsius_def readVoltage_def raw)
  next
    case Do_readFahrenheit
    with ok show ?thesis by (simp add: readFahrenheit_def readCelsius_def readVoltage_def raw)
  next
    case Do_readKelvin
    with ok show ?thesis by (simp add: readKelvin_def readCelsius_def readVoltage_def raw)
  next
    case (Do_calibrate t)
    with ok show ?thesis
      by (simp add: calibrate_def readCelsius_def readVoltage_def raw sampling_ok_def divisors_ok_def)
  next
    case (Do_readFilteredTemperatureC alpha)
    with ok show ?thesis
      by (simp add: readFilteredTemperatureC_def readCelsius_def readVoltage_def raw
          sampling_ok_def divisors_ok_def)
  next
    case Do_FaultDetect
    with ok show ?thesis by (simp add: FaultDetect_def readVoltage_def raw)
  qed
qed

text \<open>
  Claim C2 as stated: \<open>maxCount > 0\<close>, \<open>sensitivity \<noteq> 0\<close> and \<open>1 \<le> sampleCount \<le> 200\<close>
  hold from initialization on and every public operation preserves them. The bench sensor
  satisfies all three; \<open>setADCResolution(0)\<close> and \<open>setSensitivity(0)\<close> each break them, and
  \<open>begin\<close> with a resolution of 0 establishes a state that violates them.
\<close>

theorem invariants_not_enforced:
  "invariants bench_sensor
   \<and> \<not> invariants (setADCResolution 0 bench_sensor)
   \<and> \<not> invariants (setSensitivity (Num 0) bench_sensor)
   \<and> \<not> invariants (fst (begin' 0 (Num 3.3) 0 (constructor bench_sensor) (bench_board ramp)))"
  by (simp add: invariants_def divisors_ok_def sampling_ok_def bench_sensor_def
      setADCResolution_def setSensitivity_def begin'_def constructor_def)

text \<open>
  Claim C2, amended. The sample count is in \<open>[1, 200]\<close> after construction and after
  \<open>begin\<close>, and from any state where it is, every public call returns and leaves it in
  \<open>[1, 200]\<close>. The two divisors are not validated: \<open>begin\<close> and \<open>setADCResolution\<close> store
  their argument as \<open>maxCount\<close>, \<open>setSensitivity\<close> stores its argument as the sensitivity,
  and no other call changes either field. Hence, from a state where \<open>maxCount > 0\<close> and
  \<open>sensitivity \<noteq> 0\<close>, both hold after a call exactly when the call is not a \<open>begin\<close> or
  \<open>setADCResolution\<close> given 0 or a \<open>setSensitivity\<close> given 0.
\<close>

theorem sampling_count_invariant:
  "sampling_ok (constructor mem)
   \<and> sampling_ok (fst (begin' analogPin vRef adcResolution s0 b0))
   \<and> (sampling_ok s \<longrightarrow>
        (\<exists>s' b'. exec c s b = Some (s', b') \<and> sampling_ok s'
           \<and> resolution s' = stored_resolution c (resolution s)
           \<and> sensitivity s' = stored_sensitivity c (sensitivity s)
           \<and> (divisors_ok s \<longrightarrow> (divisors_ok s' \<longleftrightarrow> stores_valid_divisor c))))"
  by (intro conjI impI sampling_ok_constructor sampling_ok_begin exec_preserves)

text \<open>
  On the bench: \<open>setSampling(0)\<close> stores a count of 1, changes neither divisor and keeps
  everything valid; \<open>setSensitivity(0)\<close> keeps the count valid and the full scale of 1024
  counts, and leaves a sensitivity of 0 behind.
\<close>

theorem sampling_count_invariant_witness:
  "sampling_ok bench_sensor \<and> divisors_ok bench_sensor
   \<and> exec (Do_setSampling 0) bench_sensor (bench_board ramp) =
        Some (bench_sensor\<lparr>avg_sample := 1\<rparr>, bench_board ramp)
   \<and> sampling_ok (bench_sensor\<lparr>avg_sample := 1\<rparr>)
   \<and> resolution (bench_sensor\<lparr>avg_sample := 1\<rparr>) = 1024
   \<and> sensitivity (bench_sensor\<lparr>avg_sample := 1\<rparr>) = Num 0.5
   \<and> divisors_ok (bench_sensor\<lparr>avg_sample := 1\<rparr>)
   \<and> exec (Do_setSensitivity (Num 0)) bench_sensor (bench_board ramp) =
        Some (bench_sensor\<lparr>sensitivity := Num 0\<rparr>, bench_board ramp)
   \<and> sampling_ok (bench_sensor\<lparr>sensitivity := Num 0\<rparr>)
   \<and> resolution (bench_sensor\<lparr>sensitivity := Num 0\<rparr>) = 1024
   \<and> sensitivity (bench_sensor\<lparr>sensitivity := Num 0\<rparr>) = Num 0
   \<and> \<not> divisors_ok (bench_sensor\<lparr>sensitivity := Num 0\<rparr>)"
proof -
  have div: "divisors_ok bench_sensor"
    by (simp add: divisors_ok_def bench_sensor_def)
  have before: "resolution bench_sensor = 1024" "sensitivity bench_sensor = Num 0.5"
    by (simp_all add: bench_sensor_def)
  have clamp: "exec (Do_setSampling 0) bench_sensor (bench_board ramp) =
        Some (bench_sensor\<lparr>avg_sample := 1\<rparr>, bench_board ramp)"
    by (simp add: setSampling_def)
  have zero: "exec (Do_setSensitivity (Num 0)) bench_sensor (bench_board ramp) =
        Some (bench_sensor\<lparr>sensitivity := Num 0\<rparr>, bench_board ramp)"
    by (simp add: setSensitivity_def)
  have a: "sampling_ok (bench_sensor\<lparr>avg_sample := 1\<rparr>)"
    "resolution (bench_sensor\<lparr>avg_sample := 1\<rparr>) = 1024"
    "sensitivity (bench_sensor\<lparr>avg_sample := 1\<rparr>) = Num 0.5"
    "divisors_ok (bench_sensor\<lparr>avg_sample := 1\<rparr>)"
  proof -
    from sampling_count_invariant [of bench_sensor 0 "Num 0" 0 bench_sensor "bench_board ramp"
      bench_sensor "Do_setSampling 0" "bench_board ramp"] bench_sampling
    obtain s' b' where step: "exec (Do_setSampling 0) bench_sensor (bench_board ramp) = Some (s', b')"
      and after: "sampling_ok s'"
        "resolution s' = stored_resolution (Do_setSampling 0) (resolution bench_sensor)"
        "sensitivity s' = stored_sensitivity (Do_setSampling 0) (sensitivity bench_sensor)"
        "divisors_ok bench_sensor \<longrightarrow> (divisors_ok s' \<longleftrightarrow> stores_valid_divisor (Do_setSampling 0))"
      by blast
    from step clamp have "s' = bench_sensor\<lparr>avg_sample := 1\<rparr>"
      by (simp only: option.inject prod.inject)
    with after div before show "sampling_ok (bench_sensor\<lparr>avg_sample := 1\<rparr>)"
      "resolution (bench_sensor\<lparr>avg_sample := 1\<rparr>) = 1024"
      "sensitivity (bench_sensor\<lparr>avg_sample := 1\<rparr>) = Num 0.5"
      "divisors_ok (bench_sensor\<lparr>avg_sample := 1\<rparr>)"
      by simp_all
  qed
  have b: "sampling_ok (bench_sensor\<lparr>sensitivity := Num 0\<rparr>)"
    "resolution (bench_sensor\<lparr>sensitivity := Num 0\<rparr>) = 1024"
    "sensitivity (bench_sensor\<lparr>sensitivity := Num 0\<rparr>) = Num 0"
    "\<not> divisors_ok (bench_sensor\<lparr>sensitivity := Num 0\<rparr>)"
  proof -
    from sampling_count_invariant [of bench_sensor 0 "Num 0" 0 bench_sensor "bench_board ramp"
      bench_sensor "Do_setSensitivity (Num 0)" "bench_board ramp"] bench_sampling
    obtain s' b' where step:
        "exec (Do_setSensitivity (Num 0)) bench_sensor (bench_board ramp) = Some (s', b')"
      and after: "sampling_ok s'"
        "resolution s' = stored_resolution (Do_setSensitivity (Num 0)) (resolution bench_sensor)"
        "sensitivity s' = stored_sensitivity (Do_setSensitivity (Num 0)) (sensitivity bench_sensor)"
        "divisors_ok bench_sensor \<longrightarrow>
           (divisors_ok s' \<longleftrightarrow> stores_valid_divisor (Do_setSensitivity (Num 0)))"
      by blast
    from step zero have "s' = bench_sensor\<lparr>sensitivity := Num 0\<rparr>"
      by (simp only: option.inject prod.inject)
    with after div before show "sampling_ok (bench_sensor\<lparr>sensitivity := Num 0\<rparr>)"
      "resolution (bench_sensor\<lparr>sensitivity := Num 0\<rparr>) = 1024"
      "sensitivity (bench_sensor\<lparr>sensitivity := Num 0\<rparr>) = Num 0"
      "\<not> divisors_ok (bench_sensor\<lparr>sensitivity := Num 0\<rparr>)"
      by simp_all
  qed
  from bench_sampling div clamp zero a b show ?thesis
    by blast
qed

end
